theory Spec2Isabelle
  imports Main
begin

section \<open>JavaScript values\<close>

text \<open>
  The functions of \<^verbatim>\<open>packages/core/src/index.ts\<close> take \<^verbatim>\<open>unknown\<close>: any value that
  \<^verbatim>\<open>JSON.parse\<close> can produce, and \<^verbatim>\<open>undefined\<close>. An object is the list of its own
  properties in insertion order (a lookup takes the first entry of a key); an array is the
  list of its elements. A number is an \<open>int\<close>: the source only asks for the type of a
  number and uses numbers as keys of a \<^verbatim>\<open>Map\<close>, and on integers the key equality of a
  \<^verbatim>\<open>Map\<close> is equality. Objects with accessors, proxies and arrays with holes are not
  values of this type. The values that handlers return and throw, and those that a
  transport delivers, are values of this type as well; an instance of \<^verbatim>\<open>Error\<close> is the
  object of its own properties.
\<close>

datatype jsval =
    JUndefined
  | JNull
  | JBool bool
  | JNum int
  | JStr string
  | JArr "jsval list"
  | JObj "(string \<times> jsval) list"

text \<open>What is thrown: the \<^verbatim>\<open>TypeError\<close> of an operator applied to the wrong kind of value,
  or a value that a handler or a transport has thrown.\<close>

datatype thrown = TypeError | Thrown jsval

fun js_typeof :: "jsval \<Rightarrow> string" where
  "js_typeof JUndefined = ''undefined''"
| "js_typeof JNull = ''object''"
| "js_typeof (JBool b) = ''boolean''"
| "js_typeof (JNum n) = ''number''"
| "js_typeof (JStr s) = ''string''"
| "js_typeof (JArr xs) = ''object''"
| "js_typeof (JObj kvs) = ''object''"

text \<open>The truth value of a value in a condition (\<^verbatim>\<open>error && ...\<close>).\<close>

fun js_truthy :: "jsval \<Rightarrow> bool" where
  "js_truthy JUndefined = False"
| "js_truthy JNull = False"
| "js_truthy (JBool b) = b"
| "js_truthy (JNum n) = (n \<noteq> 0)"
| "js_truthy (JStr s) = (s \<noteq> [])"
| "js_truthy (JArr xs) = True"
| "js_truthy (JObj kvs) = True"

text \<open>
  The own property names of an array are its indices in decimal and \<^verbatim>\<open>length\<close>.
  Properties inherited from the built-in prototypes (methods such as \<^verbatim>\<open>toString\<close>) are
  not modelled; the source reads and tests only the names \<^verbatim>\<open>jsonrpc\<close>, \<^verbatim>\<open>method\<close>,
  \<^verbatim>\<open>params\<close>, \<^verbatim>\<open>id\<close>, \<^verbatim>\<open>result\<close>, \<^verbatim>\<open>error\<close>, \<^verbatim>\<open>code\<close>, \<^verbatim>\<open>message\<close> and
  \<^verbatim>\<open>data\<close>, none of which is inherited.
\<close>

definition digit_char :: "nat \<Rightarrow> char" where
  "digit_char d = ''0123456789'' ! d"

function show_nat :: "nat \<Rightarrow> string" where
  "show_nat n = (if n < 10 then [digit_char n] else show_nat (n div 10) @ [digit_char (n mod 10)])"
  by pat_completeness auto
termination
  by (relation "measure id") auto

declare show_nat.simps [simp del]

definition array_keys :: "'a list \<Rightarrow> string list" where
  "array_keys xs = ''length'' # map show_nat [0..<length xs]"

definition index_of_key :: "'a list \<Rightarrow> string \<Rightarrow> nat option" where
  "index_of_key xs k = (case filter (\<lambda>i. show_nat i = k) [0..<length xs] of [] \<Rightarrow> None | i # _ \<Rightarrow> Some i)"

text \<open>\<^verbatim>\<open>k in v\<close>: a \<^verbatim>\<open>TypeError\<close> when \<open>v\<close> is not an object.\<close>

fun js_in :: "string \<Rightarrow> jsval \<Rightarrow> thrown + bool" where
  "js_in k (JObj kvs) = Inr (k \<in> set (map fst kvs))"
| "js_in k (JArr xs) = Inr (k \<in> set (array_keys xs))"
| "js_in k JUndefined = Inl TypeError"
| "js_in k JNull = Inl TypeError"
| "js_in k (JBool b) = Inl TypeError"
| "js_in k (JNum n) = Inl TypeError"
| "js_in k (JStr s) = Inl TypeError"

text \<open>
  \<^verbatim>\<open>v.k\<close>: a \<^verbatim>\<open>TypeError\<close> when \<open>v\<close> is \<^verbatim>\<open>null\<close> or \<^verbatim>\<open>undefined\<close>, and
  \<^verbatim>\<open>undefined\<close> when the property is absent. A string has its length and its characters
  (here the characters of the \<open>string\<close>, where JavaScript counts UTF-16 code units).
\<close>

fun js_get :: "jsval \<Rightarrow> string \<Rightarrow> thrown + jsval" where
  "js_get JUndefined k = Inl TypeError"
| "js_get JNull k = Inl TypeError"
| "js_get (JBool b) k = Inr JUndefined"
| "js_get (JNum n) k = Inr JUndefined"
| "js_get (JStr s) k =
     Inr (if k = ''length'' then JNum (int (length s))
          else case index_of_key s k of None \<Rightarrow> JUndefined | Some i \<Rightarrow> JStr [s ! i])"
| "js_get (JArr xs) k =
     Inr (if k = ''length'' then JNum (int (length xs))
          else case index_of_key xs k of None \<Rightarrow> JUndefined | Some i \<Rightarrow> xs ! i)"
| "js_get (JObj kvs) k = Inr (case map_of kvs k of None \<Rightarrow> JUndefined | Some v \<Rightarrow> v)"

text \<open>
  The string a value is converted to when it is used as a property key (\<^verbatim>\<open>methods[method]\<close>),
  in a template literal or as the message of \<^verbatim>\<open>new Error(message)\<close>.
\<close>

fun join_strings :: "string list \<Rightarrow> string" where
  "join_strings [] = []"
| "join_strings [s] = s"
| "join_strings (s # t # ts) = s @ '','' @ join_strings (t # ts)"

fun js_to_string :: "jsval \<Rightarrow> string" where
  "js_to_string JUndefined = ''undefined''"
| "js_to_string JNull = ''null''"
| "js_to_string (JBool b) = (if b then ''true'' else ''false'')"
| "js_to_string (JNum n) = (if n < 0 then ''-'' @ show_nat (nat (- n)) else show_nat (nat n))"
| "js_to_string (JStr s) = s"
| "js_to_string (JArr xs) =
     join_strings (map (\<lambda>x. if x = JNull \<or> x = JUndefined then [] else js_to_string x) xs)"
| "js_to_string (JObj kvs) = ''[object Object]''"

text \<open>\<^verbatim>\<open>obj.k = v\<close> on an object: the property is replaced where it is, or added last.\<close>

fun set_prop :: "(string \<times> jsval) list \<Rightarrow> string \<Rightarrow> jsval \<Rightarrow> (string \<times> jsval) list" where
  "set_prop [] k v = [(k, v)]"
| "set_prop ((k', v') # kvs) k v = (if k' = k then (k, v) # kvs else (k', v') # set_prop kvs k v)"

text \<open>Sequencing of expressions that may throw; \<^verbatim>\<open>&&\<close>, \<^verbatim>\<open>||\<close> and \<^verbatim>\<open>!\<close> on booleans.
  The right operand of \<^verbatim>\<open>&&\<close> is not evaluated when the left one is false.\<close>

definition js_bind :: "thrown + 'a \<Rightarrow> ('a \<Rightarrow> thrown + 'b) \<Rightarrow> thrown + 'b" where
  "js_bind m f = (case m of Inl e \<Rightarrow> Inl e | Inr x \<Rightarrow> f x)"

definition js_and :: "thrown + bool \<Rightarrow> thrown + bool \<Rightarrow> thrown + bool" where
  "js_and a b = (case a of Inl e \<Rightarrow> Inl e | Inr x \<Rightarrow> if x then b else Inr False)"

definition js_or :: "thrown + bool \<Rightarrow> thrown + bool \<Rightarrow> thrown + bool" where
  "js_or a b = (case a of Inl e \<Rightarrow> Inl e | Inr x \<Rightarrow> if x then Inr True else b)"

definition js_not :: "thrown + bool \<Rightarrow> thrown + bool" where
  "js_not a = (case a of Inl e \<Rightarrow> Inl e | Inr x \<Rightarrow> Inr (\<not> x))"

text \<open>\<^verbatim>\<open>typeof v.k === t\<close> and \<^verbatim>\<open>v.k === w\<close>.\<close>

definition typeof_prop_is :: "jsval \<Rightarrow> string \<Rightarrow> string \<Rightarrow> thrown + bool" where
  "typeof_prop_is v k t = js_bind (js_get v k) (\<lambda>x. Inr (js_typeof x = t))"

definition prop_is :: "jsval \<Rightarrow> string \<Rightarrow> jsval \<Rightarrow> thrown + bool" where
  "prop_is v k w = js_bind (js_get v k) (\<lambda>x. Inr (x = w))"

section \<open>Message factory (packages/core/src/index.ts)\<close>

datatype error_code = PARSE_ERROR | INVALID_REQUEST | METHOD_NOT_FOUND | INVALID_PARAMS | INTERNAL_ERROR

fun JSONRPC_ERROR_CODES :: "error_code \<Rightarrow> int" where
  "JSONRPC_ERROR_CODES PARSE_ERROR = -32700"
| "JSONRPC_ERROR_CODES INVALID_REQUEST = -32600"
| "JSONRPC_ERROR_CODES METHOD_NOT_FOUND = -32601"
| "JSONRPC_ERROR_CODES INVALID_PARAMS = -32602"
| "JSONRPC_ERROR_CODES INTERNAL_ERROR = -32603"

text \<open>The table is keyed by the numeric code; a code outside the table has no message.\<close>

definition JSONRPC_ERROR_MESSAGES :: "int \<Rightarrow> jsval" where
  "JSONRPC_ERROR_MESSAGES c =
     (if c = -32700 then JStr ''Parse error''
      else if c = -32600 then JStr ''Invalid Request''
      else if c = -32601 then JStr ''Method not found''
      else if c = -32602 then JStr ''Invalid params''
      else if c = -32603 then JStr ''Internal error''
      else JUndefined)"

definition createJsonRpcRequest :: "string \<Rightarrow> jsval \<Rightarrow> jsval \<Rightarrow> jsval" where
  "createJsonRpcRequest method ident params =
     JObj ([(''jsonrpc'', JStr ''2.0''), (''method'', JStr method), (''id'', ident)]
           @ (if params \<noteq> JUndefined then [(''params'', params)] else []))"

definition createJsonRpcNotification :: "string \<Rightarrow> jsval \<Rightarrow> jsval" where
  "createJsonRpcNotification method params =
     JObj ([(''jsonrpc'', JStr ''2.0''), (''method'', JStr method)]
           @ (if params \<noteq> JUndefined then [(''params'', params)] else []))"

definition createJsonRpcSuccessResponse :: "jsval \<Rightarrow> jsval \<Rightarrow> jsval" where
  "createJsonRpcSuccessResponse ident result =
     JObj [(''jsonrpc'', JStr ''2.0''), (''id'', ident), (''result'', result)]"

definition createJsonRpcErrorResponse :: "jsval \<Rightarrow> jsval \<Rightarrow> jsval" where
  "createJsonRpcErrorResponse ident err =
     JObj [(''jsonrpc'', JStr ''2.0''), (''id'', ident), (''error'', err)]"

definition createJsonRpcError :: "jsval \<Rightarrow> jsval \<Rightarrow> jsval \<Rightarrow> jsval" where
  "createJsonRpcError code message data =
     JObj ([(''code'', code), (''message'', message)]
           @ (if data \<noteq> JUndefined then [(''data'', data)] else []))"

definition createStandardJsonRpcError :: "error_code \<Rightarrow> jsval \<Rightarrow> jsval" where
  "createStandardJsonRpcError code data =
     (let errorCode = JSONRPC_ERROR_CODES code;
          message = JSONRPC_ERROR_MESSAGES errorCode
      in createJsonRpcError (JNum errorCode) message data)"

section \<open>Message model: the type guards (packages/core/src/index.ts)\<close>

definition isJSONRPCRequest :: "jsval \<Rightarrow> thrown + bool" where
  "isJSONRPCRequest obj =
     js_and (Inr (js_typeof obj = ''object''))
    (js_and (Inr (obj \<noteq> JNull))
    (js_and (js_in ''jsonrpc'' obj)
    (js_and (prop_is obj ''jsonrpc'' (JStr ''2.0''))
    (js_and (js_in ''method'' obj)
    (js_and (typeof_prop_is obj ''method'' ''string'')
    (js_and (js_in ''id'' obj)
            (js_or (typeof_prop_is obj ''id'' ''string'')
                   (typeof_prop_is obj ''id'' ''number''))))))))"

definition isJSONRPCNotification :: "jsval \<Rightarrow> thrown + bool" where
  "isJSONRPCNotification obj =
     js_and (Inr (js_typeof obj = ''object''))
    (js_and (Inr (obj \<noteq> JNull))
    (js_and (js_in ''jsonrpc'' obj)
    (js_and (prop_is obj ''jsonrpc'' (JStr ''2.0''))
    (js_and (js_in ''method'' obj)
    (js_and (typeof_prop_is obj ''method'' ''string'')
            (js_not (js_in ''id'' obj)))))))"

definition isJSONRPCSuccessResponse :: "jsval \<Rightarrow> thrown + bool" where
  "isJSONRPCSuccessResponse obj =
     js_and (Inr (js_typeof obj = ''object''))
    (js_and (Inr (obj \<noteq> JNull))
    (js_and (js_in ''jsonrpc'' obj)
    (js_and (prop_is obj ''jsonrpc'' (JStr ''2.0''))
    (js_and (js_in ''result'' obj)
    (js_and (js_in ''id'' obj)
    (js_and (js_or (typeof_prop_is obj ''id'' ''string'')
                   (typeof_prop_is obj ''id'' ''number''))
            (js_not (js_in ''error'' obj))))))))"

text \<open>\<^verbatim>\<open>'code' in obj.error\<close> and \<^verbatim>\<open>typeof obj.error.code === 'number'\<close> read
  \<^verbatim>\<open>obj.error\<close> first.\<close>

definition isJSONRPCErrorResponse :: "jsval \<Rightarrow> thrown + bool" where
  "isJSONRPCErrorResponse obj =
     js_and (Inr (js_typeof obj = ''object''))
    (js_and (Inr (obj \<noteq> JNull))
    (js_and (js_in ''jsonrpc'' obj)
    (js_and (prop_is obj ''jsonrpc'' (JStr ''2.0''))
    (js_and (js_in ''error'' obj)
    (js_and (typeof_prop_is obj ''error'' ''object'')
    (js_and (js_bind (js_get obj ''error'') (\<lambda>e. Inr (e \<noteq> JNull)))
    (js_and (js_bind (js_get obj ''error'') (js_in ''code''))
    (js_and (js_bind (js_get obj ''error'') (\<lambda>e. typeof_prop_is e ''code'' ''number''))
    (js_and (js_bind (js_get obj ''error'') (js_in ''message''))
    (js_and (js_bind (js_get obj ''error'') (\<lambda>e. typeof_prop_is e ''message'' ''string''))
    (js_and (js_in ''id'' obj)
    (js_and (js_or (prop_is obj ''id'' JNull)
            (js_or (typeof_prop_is obj ''id'' ''string'')
                   (typeof_prop_is obj ''id'' ''number'')))
            (js_not (js_in ''result'' obj))))))))))))))"

definition isJSONRPCResponse :: "jsval \<Rightarrow> thrown + bool" where
  "isJSONRPCResponse obj = js_or (isJSONRPCSuccessResponse obj) (isJSONRPCErrorResponse obj)"

definition isJSONRPCError :: "jsval \<Rightarrow> thrown + bool" where
  "isJSONRPCError obj =
     js_and (Inr (js_typeof obj = ''object''))
    (js_and (Inr (obj \<noteq> JNull))
    (js_and (js_in ''code'' obj)
    (js_and (typeof_prop_is obj ''code'' ''number'')
    (js_and (js_in ''message'' obj)
            (typeof_prop_is obj ''message'' ''string'')))))"


text \<open>A request identifier: a string or a number.\<close>

definition is_id :: "jsval \<Rightarrow> bool" where
  "is_id x \<longleftrightarrow> (\<exists>s. x = JStr s) \<or> (\<exists>n. x = JNum n)"

section \<open>Server dispatcher (packages/server/src/index.ts)\<close>

text \<open>
  A method handler is called with the parameters and the context; it may change the world
  outside the dispatcher, and it either returns a value or throws one (awaited: a rejected
  promise is a throw). The handler map is the lookup \<^verbatim>\<open>methods[method]\<close>, \<open>None\<close> when
  the looked-up value is falsy. A handler is taken to settle.

  The logger of the options (by default a wrapper of the console) is taken to return
  normally; its calls are recorded in the trace, as is each call of a handler.
\<close>

datatype outcome = Returns jsval | Throws jsval

type_synonym 'w handler = "jsval \<Rightarrow> jsval \<Rightarrow> 'w \<Rightarrow> outcome \<times> 'w"

datatype log_level = LogInfo | LogWarn | LogError

datatype event = Logged log_level string "jsval list" | Invoked string jsval jsval

record 'w server =
  methods :: "string \<Rightarrow> 'w handler option"
  strictMethodHandling :: bool

record 'w server_state =
  world :: 'w
  trace :: "event list"

definition logger :: "log_level \<Rightarrow> string \<Rightarrow> jsval list \<Rightarrow> 'w server_state \<Rightarrow> 'w server_state" where
  "logger level message args st = st\<lparr>trace := trace st @ [Logged level message args]\<rparr>"

text \<open>The test of the \<^verbatim>\<open>catch\<close> block:
  \<^verbatim>\<open>error && typeof error === 'object' && 'code' in error && 'message' in error\<close>.\<close>

definition is_custom_error :: "jsval \<Rightarrow> thrown + bool" where
  "is_custom_error error =
     js_and (Inr (js_truthy error))
    (js_and (Inr (js_typeof error = ''object''))
    (js_and (js_in ''code'' error)
            (js_in ''message'' error)))"

definition handleSingleRequest ::
  "'w server \<Rightarrow> jsval \<Rightarrow> jsval \<Rightarrow> 'w server_state \<Rightarrow> thrown + (jsval \<times> 'w server_state)" where
  "handleSingleRequest srv request context st =
     js_bind (isJSONRPCRequest request) (\<lambda>isRequest.
     js_bind (isJSONRPCNotification request) (\<lambda>isNotification.
       if \<not> isRequest \<and> \<not> isNotification then
         Inr (createJsonRpcErrorResponse JNull (createStandardJsonRpcError INVALID_REQUEST JUndefined), st)
       else
     js_bind (js_get request ''method'') (\<lambda>method.
     js_bind (js_get request ''params'') (\<lambda>params.
     js_bind (if isRequest then js_get request ''id'' else Inr JNull) (\<lambda>ident.
       case methods srv (js_to_string method) of
         None \<Rightarrow>
           if isNotification then
             Inr (JNull, logger LogInfo
               (''JSON-RPC notification for unknown method: '' @ js_to_string method) [] st)
           else if strictMethodHandling srv then
             Inr (createJsonRpcErrorResponse ident (createStandardJsonRpcError METHOD_NOT_FOUND JUndefined),
                  logger LogWarn (''JSON-RPC method not found: '' @ js_to_string method) [] st)
           else
             Inr (JNull, logger LogInfo
               (''JSON-RPC method not found (non-strict mode): '' @ js_to_string method) [] st)
       | Some methodHandler \<Rightarrow>
           (case methodHandler params context (world st) of
              (Returns result, w) \<Rightarrow>
                (let st1 = st\<lparr>world := w, trace := trace st @ [Invoked (js_to_string method) params context]\<rparr>
                 in if isNotification then Inr (JNull, st1)
                    else Inr (JObj [(''jsonrpc'', JStr ''2.0''), (''id'', ident), (''result'', result)], st1))
            | (Throws error, w) \<Rightarrow>
                (let st1 = st\<lparr>world := w, trace := trace st @ [Invoked (js_to_string method) params context]\<rparr>
                 in if isNotification then
                      Inr (JNull, logger LogError
                        (''JSON-RPC notification method error in '' @ js_to_string method @ '':'') [error] st1)
                    else
                      js_bind (is_custom_error error) (\<lambda>custom.
                        if custom then
                          Inr (createJsonRpcErrorResponse ident error,
                               logger LogWarn (''JSON-RPC method error in '' @ js_to_string method @ '':'') [error] st1)
                        else
                          Inr (createJsonRpcErrorResponse ident (createStandardJsonRpcError INTERNAL_ERROR JUndefined),
                               logger LogError (''JSON-RPC internal error in '' @ js_to_string method @ '':'') [error] st1)))))))))"

text \<open>\<^verbatim>\<open>payload.every(pred)\<close>: stops at the first element that fails.\<close>

fun every :: "('a \<Rightarrow> thrown + bool) \<Rightarrow> 'a list \<Rightarrow> thrown + bool" where
  "every p [] = Inr True"
| "every p (x # xs) = js_bind (p x) (\<lambda>b. if b then every p xs else Inr False)"

definition isValidJsonRpcPayload :: "jsval \<Rightarrow> thrown + bool" where
  "isValidJsonRpcPayload payload =
     (case payload of
        JArr items \<Rightarrow> every (\<lambda>item. js_or (isJSONRPCRequest item) (isJSONRPCNotification item)) items
      | _ \<Rightarrow> js_or (isJSONRPCRequest payload) (isJSONRPCNotification payload))"

text \<open>
  The first \<^verbatim>\<open>try\<close> block of \<^verbatim>\<open>handleJsonRpcRequest\<close>: a string is parsed, any other
  payload is taken as it is. \<^verbatim>\<open>JSON.parse\<close> is a parameter: it returns the parsed value
  (\<open>Inr\<close>) or throws (\<open>Inl\<close>).
\<close>

definition decode :: "(string \<Rightarrow> jsval + jsval) \<Rightarrow> jsval \<Rightarrow> jsval + jsval" where
  "decode JSON_parse rawJsonPayload =
     (case rawJsonPayload of JStr s \<Rightarrow> JSON_parse s | _ \<Rightarrow> Inr rawJsonPayload)"

text \<open>The \<^verbatim>\<open>for\<close> loop over a batch; \<^verbatim>\<open>responses.push\<close> adds at the end.\<close>

fun batch_loop ::
  "'w server \<Rightarrow> jsval \<Rightarrow> jsval list \<Rightarrow> jsval list \<Rightarrow> 'w server_state
     \<Rightarrow> thrown + (jsval list \<times> 'w server_state)" where
  "batch_loop srv context [] responses st = Inr (responses, st)"
| "batch_loop srv context (item # items) responses st =
     js_bind (handleSingleRequest srv item context st) (\<lambda>(response, st1).
       batch_loop srv context items
         (if response \<noteq> JNull then responses @ [response] else responses) st1)"

definition handleJsonRpcRequest ::
  "(string \<Rightarrow> jsval + jsval) \<Rightarrow> 'w server \<Rightarrow> jsval \<Rightarrow> jsval \<Rightarrow> 'w server_state
     \<Rightarrow> thrown + (jsval \<times> 'w server_state)" where
  "handleJsonRpcRequest JSON_parse srv rawJsonPayload context st =
     (case decode JSON_parse rawJsonPayload of
        Inl error \<Rightarrow>
          Inr (createJsonRpcErrorResponse JNull (createStandardJsonRpcError PARSE_ERROR JUndefined),
               logger LogError ''JSON-RPC parse error:'' [error] st)
      | Inr parsedPayload \<Rightarrow>
          js_bind (isValidJsonRpcPayload parsedPayload) (\<lambda>valid.
            if \<not> valid then
              Inr (createJsonRpcErrorResponse JNull (createStandardJsonRpcError INVALID_REQUEST JUndefined),
                   logger LogWarn ''JSON-RPC invalid request structure:'' [parsedPayload] st)
            else
              (case parsedPayload of
                 JArr items \<Rightarrow>
                   if length items = 0 then
                     Inr (createJsonRpcErrorResponse JNull (createStandardJsonRpcError INVALID_REQUEST JUndefined),
                          logger LogWarn ''JSON-RPC empty batch request'' [] st)
                   else
                     js_bind (batch_loop srv context items [] st) (\<lambda>(responses, st1).
                       Inr (if length responses > 0 then JArr responses else JNull, st1))
               | _ \<Rightarrow> handleSingleRequest srv parsedPayload context st)))"

text \<open>
  The results of the elements of a batch, one per element and in the order of the
  elements, each element handled in the state its predecessor left.
\<close>

fun element_results ::
  "'w server \<Rightarrow> jsval \<Rightarrow> jsval list \<Rightarrow> 'w server_state \<Rightarrow> thrown + (jsval list \<times> 'w server_state)" where
  "element_results srv context [] st = Inr ([], st)"
| "element_results srv context (item # items) st =
     js_bind (handleSingleRequest srv item context st) (\<lambda>(r, st1).
     js_bind (element_results srv context items st1) (\<lambda>(rs, st2). Inr (r # rs, st2)))"

text \<open>An element that the validation of a payload accepts.\<close>

definition valid_element :: "jsval \<Rightarrow> bool" where
  "valid_element x \<longleftrightarrow> isJSONRPCRequest x = Inr True \<or> isJSONRPCNotification x = Inr True"

section \<open>Client correlator (packages/client/src/index.ts)\<close>

text \<open>
  \<^verbatim>\<open>createJsonRpcClient(transport)\<close> closes over the transport, the counter \<^verbatim>\<open>nextId\<close>
  and the \<^verbatim>\<open>Map\<close> \<^verbatim>\<open>pendingRequests\<close>. An entry of the map holds the \<^verbatim>\<open>resolve\<close> and
  \<^verbatim>\<open>reject\<close> functions of the promise that \<^verbatim>\<open>call\<close> returned for the key of the entry,
  so the model keeps the set of keys and names a continuation by its key.

  A call of the transport either throws at once or returns a promise, which is fulfilled
  or rejected later: \<open>call_then\<close>, \<open>call_rejected\<close> and \<open>notify_catch\<close> are the callbacks
  that the client has attached to that promise.

  What the client does to the world around it is recorded in the \<open>runtime\<close>: the calls of
  the continuations (\<open>settled\<close>, in order: a promise keeps its first settlement), the
  payloads handed to the transport (\<open>sent\<close>), and the argument lists of the calls of the
  global \<^verbatim>\<open>console.warn\<close>.
\<close>

datatype settlement = Fulfilled jsval | Rejected thrown

datatype transport_call = ThrowsSync jsval | ReturnsPromise

record client =
  transport :: "jsval \<Rightarrow> transport_call"
  nextId :: int
  pendingRequests :: "jsval set"

record runtime =
  settled :: "(jsval \<times> settlement) list"
  sent :: "jsval list"
  console_warn :: "jsval list list"

definition createJsonRpcClient :: "(jsval \<Rightarrow> transport_call) \<Rightarrow> client" where
  "createJsonRpcClient t = \<lparr>transport = t, nextId = 1, pendingRequests = {}\<rparr>"

definition generateId :: "client \<Rightarrow> int \<times> client" where
  "generateId c = (nextId c, c\<lparr>nextId := nextId c + 1\<rparr>)"

text \<open>
  \<^verbatim>\<open>new Error(message)\<close> as the object of its own properties (the stack and what the
  prototype gives are left out), and an assignment \<^verbatim>\<open>obj.k = v\<close> to an object.
\<close>

definition new_Error :: "jsval \<Rightarrow> jsval" where
  "new_Error message =
     JObj (if message \<noteq> JUndefined then [(''message'', JStr (js_to_string message))] else [])"

fun assign :: "jsval \<Rightarrow> string \<Rightarrow> jsval \<Rightarrow> jsval" where
  "assign (JObj kvs) k v = JObj (set_prop kvs k v)"
| "assign x k v = x"

text \<open>A statement that may throw, in a function that changes the client and the runtime:
  the result is the value thrown, if any, and the state reached.\<close>

definition try_js ::
  "thrown + 'a \<Rightarrow> ('a \<Rightarrow> client \<times> runtime \<Rightarrow> thrown option \<times> (client \<times> runtime))
     \<Rightarrow> client \<times> runtime \<Rightarrow> thrown option \<times> (client \<times> runtime)" where
  "try_js m f cr = (case m of Inl e \<Rightarrow> (Some e, cr) | Inr x \<Rightarrow> f x cr)"

definition handleSingleResponse ::
  "jsval \<Rightarrow> client \<times> runtime \<Rightarrow> thrown option \<times> (client \<times> runtime)" where
  "handleSingleResponse response =
     try_js (js_get response ''id'') (\<lambda>ident (c, rt).
       if ident = JNull then (None, (c, rt))
       else if ident \<notin> pendingRequests c then (None, (c, rt))
       else
         (let c1 = c\<lparr>pendingRequests := pendingRequests c - {ident}\<rparr> in
          try_js (isJSONRPCSuccessResponse response) (\<lambda>isSuccess.
            if isSuccess then
              try_js (js_get response ''result'') (\<lambda>result (c2, rt2).
                (None, (c2, rt2\<lparr>settled := settled rt2 @ [(ident, Fulfilled result)]\<rparr>)))
            else
              try_js (isJSONRPCErrorResponse response) (\<lambda>isError.
                if isError then
                  try_js (js_get response ''error'') (\<lambda>err.
                  try_js (js_get err ''message'') (\<lambda>message.
                  try_js (js_get err ''code'') (\<lambda>code.
                  try_js (js_get err ''data'') (\<lambda>data (c2, rt2).
                    (let error = assign (assign (new_Error message) ''code'' code) ''data'' data
                     in (None, (c2, rt2\<lparr>settled := settled rt2 @ [(ident, Rejected (Thrown error))]\<rparr>)))))))
                else (\<lambda>cr. (None, cr))))
          (c1, rt)))"

text \<open>The \<^verbatim>\<open>for\<close> loop of \<^verbatim>\<open>handleResponse\<close>: a throw ends it.\<close>

fun handleResponses ::
  "jsval list \<Rightarrow> client \<times> runtime \<Rightarrow> thrown option \<times> (client \<times> runtime)" where
  "handleResponses [] cr = (None, cr)"
| "handleResponses (singleResponse # rest) cr =
     (case handleSingleResponse singleResponse cr of
        (Some e, cr1) \<Rightarrow> (Some e, cr1)
      | (None, cr1) \<Rightarrow> handleResponses rest cr1)"

definition handleResponse ::
  "jsval \<Rightarrow> jsval \<Rightarrow> client \<times> runtime \<Rightarrow> thrown option \<times> (client \<times> runtime)" where
  "handleResponse response requestId cr =
     (case response of
        JArr responses \<Rightarrow> handleResponses responses cr
      | _ \<Rightarrow> handleSingleResponse response cr)"

text \<open>The \<^verbatim>\<open>.catch\<close> callback of \<^verbatim>\<open>call\<close>.\<close>

definition call_catch :: "thrown \<Rightarrow> jsval \<Rightarrow> client \<times> runtime \<Rightarrow> client \<times> runtime" where
  "call_catch error ident = (\<lambda>(c, rt).
     if ident \<in> pendingRequests c then
       (c\<lparr>pendingRequests := pendingRequests c - {ident}\<rparr>,
        rt\<lparr>settled := settled rt @ [(ident, Rejected error)]\<rparr>)
     else (c, rt))"

text \<open>
  \<^verbatim>\<open>call\<close> up to the call of the transport; the result is the key that names the promise
  returned. A transport that throws at once throws inside the executor of the promise,
  which rejects the promise and leaves the entry in the map.
\<close>

definition call :: "string \<Rightarrow> jsval \<Rightarrow> client \<times> runtime \<Rightarrow> jsval \<times> (client \<times> runtime)" where
  "call method params = (\<lambda>(c, rt).
     (let (n, c1) = generateId c;
          ident = JNum n;
          request = createJsonRpcRequest method ident params;
          c2 = c1\<lparr>pendingRequests := insert ident (pendingRequests c1)\<rparr>;
          rt1 = rt\<lparr>sent := sent rt @ [request]\<rparr>
      in case transport c request of
           ThrowsSync e \<Rightarrow> (ident, (c2, rt1\<lparr>settled := settled rt1 @ [(ident, Rejected (Thrown e))]\<rparr>))
         | ReturnsPromise \<Rightarrow> (ident, (c2, rt1))))"

text \<open>The transport's promise is fulfilled with \<open>response\<close>: the \<^verbatim>\<open>.then\<close> callback, and
  the \<^verbatim>\<open>.catch\<close> callback when that one throws.\<close>

definition call_then :: "jsval \<Rightarrow> jsval \<Rightarrow> client \<times> runtime \<Rightarrow> client \<times> runtime" where
  "call_then response ident cr =
     (case handleResponse response ident cr of
        (None, cr1) \<Rightarrow> cr1
      | (Some e, cr1) \<Rightarrow> call_catch e ident cr1)"

text \<open>The transport's promise is rejected with \<open>error\<close>.\<close>

definition call_rejected :: "jsval \<Rightarrow> jsval \<Rightarrow> client \<times> runtime \<Rightarrow> client \<times> runtime" where
  "call_rejected error ident cr = call_catch (Thrown error) ident cr"

text \<open>\<^verbatim>\<open>notify\<close> returns or throws; \<open>notify_catch\<close> is its \<^verbatim>\<open>.catch\<close> callback.\<close>

definition notify :: "string \<Rightarrow> jsval \<Rightarrow> client \<times> runtime \<Rightarrow> thrown option \<times> (client \<times> runtime)" where
  "notify method params = (\<lambda>(c, rt).
     (let notification = createJsonRpcNotification method params;
          rt1 = rt\<lparr>sent := sent rt @ [notification]\<rparr>
      in case transport c notification of
           ThrowsSync e \<Rightarrow> (Some (Thrown e), (c, rt1))
         | ReturnsPromise \<Rightarrow> (None, (c, rt1))))"

definition notify_catch :: "jsval \<Rightarrow> client \<times> runtime \<Rightarrow> client \<times> runtime" where
  "notify_catch error = (\<lambda>(c, rt).
     (c, rt\<lparr>console_warn := console_warn rt @ [[JStr ''JSON-RPC notification transport error:'', error]]\<rparr>))"

text \<open>The calls of the continuation of the call with key \<open>i\<close>, in order.\<close>

definition settlements_of :: "jsval \<Rightarrow> runtime \<Rightarrow> settlement list" where
  "settlements_of i rt = map snd (filter (\<lambda>e. fst e = i) (settled rt))"

section \<open>Example inputs\<close>

text \<open>
  A server with two methods: \<^verbatim>\<open>echo\<close> returns its parameters, \<^verbatim>\<open>read\<close> fails the way
  a file-system call of Node.js fails, with an object whose \<^verbatim>\<open>code\<close> is a string.
\<close>

definition fs_error :: jsval where
  "fs_error = JObj [(''code'', JStr ''ENOENT''), (''message'', JStr ''no such file: /srv/keys/master.pem'')]"

definition example_server :: "unit server" where
  "example_server =
     \<lparr>methods = (\<lambda>m. if m = ''echo'' then Some (\<lambda>params context w. (Returns params, w))
                     else if m = ''read'' then Some (\<lambda>params context w. (Throws fs_error, w))
                     else None),
      strictMethodHandling = True\<rparr>"

definition idle :: "unit server_state" where
  "idle = \<lparr>world = (), trace = []\<rparr>"

text \<open>A \<^verbatim>\<open>JSON.parse\<close> for payloads that are not strings: it is never called.\<close>

definition parse_nothing :: "string \<Rightarrow> jsval + jsval" where
  "parse_nothing s = Inl (JStr ''SyntaxError'')"

text \<open>A client whose transport returns a promise, a quiet runtime, and the state after the
  first \<^verbatim>\<open>call\<close>.\<close>

definition example_client :: client where
  "example_client = createJsonRpcClient (\<lambda>payload. ReturnsPromise)"

definition quiet :: runtime where
  "quiet = \<lparr>settled = [], sent = [], console_warn = []\<rparr>"

definition one_call_pending :: "client \<times> runtime" where
  "one_call_pending = snd (call ''get'' JUndefined (example_client, quiet))"

section \<open>Properties of the type guards\<close>

lemma show_nat_digits: "set (show_nat n) \<subseteq> set ''0123456789''"
proof (induction n rule: show_nat.induct)
  case (1 n)
  have d: "\<And>d. d < 10 \<Longrightarrow> digit_char d \<in> set ''0123456789''"
    unfolding digit_char_def by (rule nth_mem) simp
  show ?case
  proof (cases "n < 10")
    case True
    then show ?thesis using d[of n] by (subst show_nat.simps) simp
  next
    case False
    then show ?thesis using 1 d[of "n mod 10"] by (subst show_nat.simps) simp
  qed
qed

lemma not_array_key:
  assumes "c \<in> set k" and "c \<notin> set ''0123456789''" and "k \<noteq> ''length''"
  shows "k \<notin> set (array_keys xs)"
  using assms show_nat_digits unfolding array_keys_def by auto

lemma jsonrpc_not_array_key: "''jsonrpc'' \<notin> set (array_keys xs)"
  by (rule not_array_key[where c = "CHR ''j''"]) simp_all

lemma code_not_array_key: "''code'' \<notin> set (array_keys xs)"
  by (rule not_array_key[where c = "CHR ''c''"]) simp_all

lemma in_keys_iff: "k \<in> fst ` set kvs \<longleftrightarrow> map_of kvs k \<noteq> None"
  by (simp add: map_of_eq_None_iff)

lemmas js_ops = js_and_def js_or_def js_not_def js_bind_def typeof_prop_is_def prop_is_def

lemma js_typeof_string_iff: "js_typeof x = ''string'' \<longleftrightarrow> (\<exists>s. x = JStr s)"
  by (cases x) simp_all

lemma js_typeof_number_iff: "js_typeof x = ''number'' \<longleftrightarrow> (\<exists>n. x = JNum n)"
  by (cases x) simp_all

text \<open>What each guard computes on an object, and on everything else.\<close>

lemma isJSONRPCRequest_obj:
  "isJSONRPCRequest (JObj kvs) =
     Inr (map_of kvs ''jsonrpc'' = Some (JStr ''2.0'') \<and>
          (\<exists>s. map_of kvs ''method'' = Some (JStr s)) \<and>
          (\<exists>x. map_of kvs ''id'' = Some x \<and> is_id x))"
  unfolding isJSONRPCRequest_def is_id_def
  by (auto simp add: js_ops in_keys_iff js_typeof_string_iff js_typeof_number_iff split: option.splits)

lemma isJSONRPCNotification_obj:
  "isJSONRPCNotification (JObj kvs) =
     Inr (map_of kvs ''jsonrpc'' = Some (JStr ''2.0'') \<and>
          (\<exists>s. map_of kvs ''method'' = Some (JStr s)) \<and>
          map_of kvs ''id'' = None)"
  unfolding isJSONRPCNotification_def
  by (auto simp add: js_ops in_keys_iff js_typeof_string_iff split: option.splits)

lemma isJSONRPCSuccessResponse_obj:
  "isJSONRPCSuccessResponse (JObj kvs) =
     Inr (map_of kvs ''jsonrpc'' = Some (JStr ''2.0'') \<and>
          map_of kvs ''result'' \<noteq> None \<and>
          (\<exists>x. map_of kvs ''id'' = Some x \<and> is_id x) \<and>
          map_of kvs ''error'' = None)"
  unfolding isJSONRPCSuccessResponse_def is_id_def
  by (auto simp add: js_ops in_keys_iff js_typeof_string_iff js_typeof_number_iff split: option.splits)

lemma isJSONRPCError_obj:
  "isJSONRPCError (JObj kvs) =
     Inr ((\<exists>n. map_of kvs ''code'' = Some (JNum n)) \<and> (\<exists>s. map_of kvs ''message'' = Some (JStr s)))"
  unfolding isJSONRPCError_def
  by (auto simp add: js_ops in_keys_iff js_typeof_string_iff js_typeof_number_iff split: option.splits)

lemma isJSONRPCError_other:
  "\<forall>kvs. v \<noteq> JObj kvs \<Longrightarrow> isJSONRPCError v = Inr False"
  unfolding isJSONRPCError_def
  by (cases v) (simp_all add: js_ops code_not_array_key)

lemma isJSONRPCRequest_other:
  "\<forall>kvs. v \<noteq> JObj kvs \<Longrightarrow> isJSONRPCRequest v = Inr False"
  unfolding isJSONRPCRequest_def
  by (cases v) (simp_all add: js_ops jsonrpc_not_array_key)

lemma isJSONRPCNotification_other:
  "\<forall>kvs. v \<noteq> JObj kvs \<Longrightarrow> isJSONRPCNotification v = Inr False"
  unfolding isJSONRPCNotification_def
  by (cases v) (simp_all add: js_ops jsonrpc_not_array_key)

lemma isJSONRPCSuccessResponse_other:
  "\<forall>kvs. v \<noteq> JObj kvs \<Longrightarrow> isJSONRPCSuccessResponse v = Inr False"
  unfolding isJSONRPCSuccessResponse_def
  by (cases v) (simp_all add: js_ops jsonrpc_not_array_key)

lemma isJSONRPCErrorResponse_other:
  "\<forall>kvs. v \<noteq> JObj kvs \<Longrightarrow> isJSONRPCErrorResponse v = Inr False"
  unfolding isJSONRPCErrorResponse_def
  by (cases v) (simp_all add: js_ops jsonrpc_not_array_key)

lemma isJSONRPCErrorResponse_obj:
  "isJSONRPCErrorResponse (JObj kvs) =
     Inr (map_of kvs ''jsonrpc'' = Some (JStr ''2.0'') \<and>
          (\<exists>e. map_of kvs ''error'' = Some e \<and> isJSONRPCError e = Inr True) \<and>
          (\<exists>x. map_of kvs ''id'' = Some x \<and> (x = JNull \<or> is_id x)) \<and>
          map_of kvs ''result'' = None)"
proof (cases "map_of kvs ''error''")
  case None
  then show ?thesis
    unfolding isJSONRPCErrorResponse_def
    by (auto simp add: js_ops in_keys_iff split: option.splits)
next
  case (Some e)
  show ?thesis
  proof (cases "\<exists>ekvs. e = JObj ekvs")
    case False
    then have "isJSONRPCError e = Inr False" by (simp add: isJSONRPCError_other)
    moreover have "isJSONRPCErrorResponse (JObj kvs) = Inr False"
      using Some False unfolding isJSONRPCErrorResponse_def
      by (cases e) (auto simp add: js_ops in_keys_iff code_not_array_key split: option.splits)
    ultimately show ?thesis using Some by simp
  next
    case True
    then obtain ekvs where e: "e = JObj ekvs" by blast
    show ?thesis
      using Some unfolding isJSONRPCErrorResponse_def e is_id_def
      by (auto simp add: isJSONRPCError_obj js_ops in_keys_iff js_typeof_string_iff
          js_typeof_number_iff split: option.splits)
  qed
qed

lemma isJSONRPCRequest_total: "\<exists>b. isJSONRPCRequest v = Inr b"
  by (cases "\<exists>kvs. v = JObj kvs") (auto simp add: isJSONRPCRequest_obj isJSONRPCRequest_other)

lemma isJSONRPCNotification_total: "\<exists>b. isJSONRPCNotification v = Inr b"
  by (cases "\<exists>kvs. v = JObj kvs") (auto simp add: isJSONRPCNotification_obj isJSONRPCNotification_other)

lemma isJSONRPCSuccessResponse_total: "\<exists>b. isJSONRPCSuccessResponse v = Inr b"
  by (cases "\<exists>kvs. v = JObj kvs")
    (auto simp add: isJSONRPCSuccessResponse_obj isJSONRPCSuccessResponse_other)

lemma isJSONRPCErrorResponse_total: "\<exists>b. isJSONRPCErrorResponse v = Inr b"
  by (cases "\<exists>kvs. v = JObj kvs")
    (auto simp add: isJSONRPCErrorResponse_obj isJSONRPCErrorResponse_other)

lemma isJSONRPCError_total: "\<exists>b. isJSONRPCError v = Inr b"
  by (cases "\<exists>kvs. v = JObj kvs") (auto simp add: isJSONRPCError_obj isJSONRPCError_other)

lemma isJSONRPCResponse_total: "\<exists>b. isJSONRPCResponse v = Inr b"
  using isJSONRPCSuccessResponse_total[of v] isJSONRPCErrorResponse_total[of v]
  by (auto simp add: isJSONRPCResponse_def js_or_def)

lemma request_is_object: "isJSONRPCRequest v = Inr True \<Longrightarrow> \<exists>kvs. v = JObj kvs"
  using isJSONRPCRequest_other[of v] by auto

lemma notification_is_object: "isJSONRPCNotification v = Inr True \<Longrightarrow> \<exists>kvs. v = JObj kvs"
  using isJSONRPCNotification_other[of v] by auto

lemma success_is_object: "isJSONRPCSuccessResponse v = Inr True \<Longrightarrow> \<exists>kvs. v = JObj kvs"
  using isJSONRPCSuccessResponse_other[of v] by auto

lemma error_response_is_object: "isJSONRPCErrorResponse v = Inr True \<Longrightarrow> \<exists>kvs. v = JObj kvs"
  using isJSONRPCErrorResponse_other[of v] by auto

text \<open>
  Claim C9. Each of the six type guards is a function of its argument alone, and on every
  value (\<^verbatim>\<open>null\<close>, \<^verbatim>\<open>undefined\<close>, booleans, numbers, strings, arrays, objects) it
  returns \<open>true\<close> or \<open>false\<close>: the operators \<^verbatim>\<open>in\<close> and the property reads, which throw
  on a value that is not an object, are never reached with such a value.
\<close>

theorem classification_total:
  "(\<exists>b. isJSONRPCRequest v = Inr b) \<and> (\<exists>b. isJSONRPCNotification v = Inr b) \<and>
   (\<exists>b. isJSONRPCSuccessResponse v = Inr b) \<and> (\<exists>b. isJSONRPCErrorResponse v = Inr b) \<and>
   (\<exists>b. isJSONRPCResponse v = Inr b) \<and> (\<exists>b. isJSONRPCError v = Inr b)"
  by (intro conjI isJSONRPCRequest_total isJSONRPCNotification_total
      isJSONRPCSuccessResponse_total isJSONRPCErrorResponse_total isJSONRPCResponse_total
      isJSONRPCError_total)

lemma request_not_notification:
  "\<not> (isJSONRPCRequest v = Inr True \<and> isJSONRPCNotification v = Inr True)"
  by (cases "\<exists>kvs. v = JObj kvs")
    (auto simp add: isJSONRPCRequest_obj isJSONRPCNotification_obj isJSONRPCNotification_other)

lemma success_not_error:
  "\<not> (isJSONRPCSuccessResponse v = Inr True \<and> isJSONRPCErrorResponse v = Inr True)"
  by (cases "\<exists>kvs. v = JObj kvs")
    (auto simp add: isJSONRPCSuccessResponse_obj isJSONRPCErrorResponse_obj
      isJSONRPCSuccessResponse_other)

lemma notification_not_response:
  "\<not> (isJSONRPCNotification v = Inr True \<and> isJSONRPCSuccessResponse v = Inr True) \<and>
   \<not> (isJSONRPCNotification v = Inr True \<and> isJSONRPCErrorResponse v = Inr True)"
  by (cases "\<exists>kvs. v = JObj kvs")
    (auto simp add: isJSONRPCSuccessResponse_obj isJSONRPCErrorResponse_obj
      isJSONRPCNotification_obj isJSONRPCNotification_other)

text \<open>
  Claim C1, as the code has it. A request is never a notification, a success response is
  never an error response, and a notification is neither kind of response. The guards of
  the responses do not look at \<^verbatim>\<open>method\<close> and the guard of a request does not look at
  \<^verbatim>\<open>result\<close> or \<^verbatim>\<open>error\<close>, so nothing keeps a request from being a response as well.
\<close>

theorem classification_exclusive_pairs:
  "\<not> (isJSONRPCRequest v = Inr True \<and> isJSONRPCNotification v = Inr True) \<and>
   \<not> (isJSONRPCSuccessResponse v = Inr True \<and> isJSONRPCErrorResponse v = Inr True) \<and>
   \<not> (isJSONRPCNotification v = Inr True \<and> isJSONRPCSuccessResponse v = Inr True) \<and>
   \<not> (isJSONRPCNotification v = Inr True \<and> isJSONRPCErrorResponse v = Inr True)"
  using request_not_notification[of v] success_not_error[of v] notification_not_response[of v]
  by blast

text \<open>
  Against claim C1 as stated: the value \<^verbatim>\<open>{jsonrpc: '2.0', method: 'add', id: 1, result: 3}\<close>
  is a request and a success response at once.
\<close>

theorem request_and_success_response:
  "isJSONRPCRequest
     (JObj [(''jsonrpc'', JStr ''2.0''), (''method'', JStr ''add''), (''id'', JNum 1), (''result'', JNum 3)])
     = Inr True \<and>
   isJSONRPCSuccessResponse
     (JObj [(''jsonrpc'', JStr ''2.0''), (''method'', JStr ''add''), (''id'', JNum 1), (''result'', JNum 3)])
     = Inr True"
  by (simp add: isJSONRPCRequest_obj isJSONRPCSuccessResponse_obj is_id_def)

section \<open>Properties of the dispatcher\<close>

lemma is_custom_error_eq:
  "is_custom_error e =
     Inr (case e of JObj kvs \<Rightarrow> map_of kvs ''code'' \<noteq> None \<and> map_of kvs ''message'' \<noteq> None | _ \<Rightarrow> False)"
  by (cases e) (auto simp add: is_custom_error_def js_ops code_not_array_key in_keys_iff)

lemma handleSingleRequest_invalid:
  assumes "isJSONRPCRequest v = Inr False" and "isJSONRPCNotification v = Inr False"
  shows "handleSingleRequest srv v ctx st =
    Inr (createJsonRpcErrorResponse JNull (createStandardJsonRpcError INVALID_REQUEST JUndefined), st)"
  using assms by (simp add: handleSingleRequest_def js_bind_def)

lemma handleSingleRequest_total: "\<exists>r st'. handleSingleRequest srv v ctx st = Inr (r, st')"
proof (cases "\<exists>kvs. v = JObj kvs")
  case False
  then show ?thesis
    by (simp add: handleSingleRequest_invalid isJSONRPCRequest_other isJSONRPCNotification_other)
next
  case True
  then obtain kvs where v: "v = JObj kvs" by blast
  obtain b1 where b1: "isJSONRPCRequest v = Inr b1" using isJSONRPCRequest_total by blast
  obtain b2 where b2: "isJSONRPCNotification v = Inr b2" using isJSONRPCNotification_total by blast
  show ?thesis
    unfolding handleSingleRequest_def b1 b2
    by (auto simp add: v js_bind_def Let_def is_custom_error_eq split: option.splits outcome.splits prod.splits)
qed

lemma js_or_valid_element:
  "js_or (isJSONRPCRequest x) (isJSONRPCNotification x) = Inr (valid_element x)"
  using isJSONRPCRequest_total[of x] isJSONRPCNotification_total[of x]
  by (auto simp add: js_or_def valid_element_def)

lemma every_valid_element:
  "every (\<lambda>item. js_or (isJSONRPCRequest item) (isJSONRPCNotification item)) items =
     Inr (list_all valid_element items)"
  by (induction items) (simp_all add: js_or_valid_element js_bind_def)

lemma isValidJsonRpcPayload_array:
  "isValidJsonRpcPayload (JArr items) = Inr (list_all valid_element items)"
  by (simp add: isValidJsonRpcPayload_def every_valid_element)

lemma isValidJsonRpcPayload_single:
  "\<forall>xs. v \<noteq> JArr xs \<Longrightarrow> isValidJsonRpcPayload v = Inr (valid_element v)"
  by (cases v) (simp_all add: isValidJsonRpcPayload_def js_or_valid_element)

lemma not_valid_element_iff:
  "\<not> valid_element x \<longleftrightarrow> isJSONRPCRequest x = Inr False \<and> isJSONRPCNotification x = Inr False"
  using isJSONRPCRequest_total[of x] isJSONRPCNotification_total[of x]
  by (auto simp add: valid_element_def)

lemma batch_loop_element_results:
  "batch_loop srv ctx items acc st =
     js_bind (element_results srv ctx items st)
       (\<lambda>(rs, st'). Inr (acc @ filter (\<lambda>r. r \<noteq> JNull) rs, st'))"
proof (induction items arbitrary: acc st)
  case Nil
  then show ?case by (simp add: js_bind_def)
next
  case (Cons item items)
  show ?case
  proof (cases "handleSingleRequest srv item ctx st")
    case (Inl e)
    then show ?thesis by (simp add: js_bind_def)
  next
    case (Inr p)
    obtain r st1 where p: "p = (r, st1)" by (cases p)
    show ?thesis
      using Inr Cons.IH[of _ st1] unfolding p
      by (simp add: js_bind_def split: sum.splits prod.splits)
  qed
qed

lemma element_results_total:
  "\<exists>rs st'. element_results srv ctx items st = Inr (rs, st') \<and> length rs = length items"
proof (induction items arbitrary: st)
  case Nil
  then show ?case by simp
next
  case (Cons item items)
  obtain r st1 where h: "handleSingleRequest srv item ctx st = Inr (r, st1)"
    using handleSingleRequest_total by blast
  obtain rs st2 where t: "element_results srv ctx items st1 = Inr (rs, st2)" "length rs = length items"
    using Cons.IH by blast
  show ?case using h t by (simp add: js_bind_def)
qed

lemma handleJsonRpcRequest_total:
  "\<exists>r st'. handleJsonRpcRequest P srv raw ctx st = Inr (r, st')"
proof (cases "decode P raw")
  case (Inl e)
  then show ?thesis by (simp add: handleJsonRpcRequest_def)
next
  case (Inr v)
  show ?thesis
  proof (cases "\<exists>items. v = JArr items")
    case True
    then obtain items where v: "v = JArr items" by blast
    obtain rs st' where "element_results srv ctx items st = Inr (rs, st')"
      using element_results_total by blast
    then show ?thesis
      using Inr unfolding v
      by (simp add: handleJsonRpcRequest_def isValidJsonRpcPayload_array js_bind_def
          batch_loop_element_results)
  next
    case False
    obtain r st' where "handleSingleRequest srv v ctx st = Inr (r, st')"
      using handleSingleRequest_total by blast
    then show ?thesis
      using Inr False
      by (cases v) (simp_all add: handleJsonRpcRequest_def isValidJsonRpcPayload_single js_bind_def)
  qed
qed


lemma invalid_request_response_eq:
  "createJsonRpcErrorResponse JNull (createStandardJsonRpcError INVALID_REQUEST JUndefined) =
     JObj [(''jsonrpc'', JStr ''2.0''), (''id'', JNull),
           (''error'', JObj [(''code'', JNum (- 32600)), (''message'', JStr ''Invalid Request'')])]"
  by (simp add: createJsonRpcErrorResponse_def createStandardJsonRpcError_def
      createJsonRpcError_def JSONRPC_ERROR_MESSAGES_def)

text \<open>
  Claim C4. When the decoded payload is a single value that is neither a request nor a
  notification, or an array with an element that is neither, the dispatcher answers the
  whole payload with one error response, id \<^verbatim>\<open>null\<close> and code -32600. The state it
  leaves shows that no handler was called: the world is untouched and the trace gains the
  one warning of the logger.
\<close>

theorem invalid_payload_rejected_whole:
  assumes "decode P raw = Inr v"
    and "((\<forall>xs. v \<noteq> JArr xs) \<and> isJSONRPCRequest v = Inr False \<and> isJSONRPCNotification v = Inr False) \<or>
         (\<exists>xs x. v = JArr xs \<and> x \<in> set xs \<and>
                 isJSONRPCRequest x = Inr False \<and> isJSONRPCNotification x = Inr False)"
  shows "handleJsonRpcRequest P srv raw ctx st =
     Inr (JObj [(''jsonrpc'', JStr ''2.0''), (''id'', JNull),
                (''error'', JObj [(''code'', JNum (- 32600)), (''message'', JStr ''Invalid Request'')])],
          st\<lparr>trace := trace st @ [Logged LogWarn ''JSON-RPC invalid request structure:'' [v]]\<rparr>)"
proof -
  have "isValidJsonRpcPayload v = Inr False"
    using assms(2)
  proof (elim disjE conjE exE)
    assume "\<forall>xs. v \<noteq> JArr xs" "isJSONRPCRequest v = Inr False" "isJSONRPCNotification v = Inr False"
    then show ?thesis
      by (simp add: isValidJsonRpcPayload_single not_valid_element_iff)
  next
    fix xs x
    assume "v = JArr xs" "x \<in> set xs" "isJSONRPCRequest x = Inr False" "isJSONRPCNotification x = Inr False"
    then have "v = JArr xs" "x \<in> set xs" "\<not> valid_element x"
      by (simp_all add: not_valid_element_iff)
    then show ?thesis
      by (auto simp add: isValidJsonRpcPayload_array list_all_iff)
  qed
  then show ?thesis
    using assms(1)
    by (simp add: handleJsonRpcRequest_def js_bind_def logger_def invalid_request_response_eq)
qed

lemma handleSingleRequest_notification:
  assumes "isJSONRPCNotification v = Inr True"
  shows "\<exists>st'. handleSingleRequest srv v ctx st = Inr (JNull, st')"
proof -
  obtain kvs where v: "v = JObj kvs" using assms notification_is_object by blast
  have r: "isJSONRPCRequest v = Inr False"
    using assms request_not_notification[of v] isJSONRPCRequest_total[of v] by auto
  show ?thesis
    unfolding handleSingleRequest_def r assms
    by (auto simp add: v js_bind_def Let_def split: option.splits outcome.splits prod.splits)
qed

lemma handleSingleRequest_request_id:
  assumes "isJSONRPCRequest v = Inr True"
    and "handleSingleRequest srv v ctx st = Inr (r, st')"
  shows "r = JNull \<or> (\<exists>i. js_get r ''id'' = Inr i \<and> is_id i)"
proof -
  obtain kvs where v: "v = JObj kvs" using assms(1) request_is_object by blast
  have n: "isJSONRPCNotification v = Inr False"
    using assms(1) request_not_notification[of v] isJSONRPCNotification_total[of v] by auto
  obtain i where i: "map_of kvs ''id'' = Some i" "is_id i"
    using assms(1) unfolding v isJSONRPCRequest_obj by auto
  show ?thesis
    using assms(2) i unfolding handleSingleRequest_def assms(1) n
    by (auto simp add: v js_bind_def Let_def is_custom_error_eq createJsonRpcErrorResponse_def
        split: option.splits outcome.splits prod.splits if_splits)
qed

lemma handleSingleRequest_valid_id:
  assumes "valid_element v" and "handleSingleRequest srv v ctx st = Inr (r, st')"
  shows "r = JNull \<or> (\<exists>i. js_get r ''id'' = Inr i \<and> is_id i)"
  using assms handleSingleRequest_request_id[of v srv ctx st r st']
    handleSingleRequest_notification[of v srv ctx st]
  by (auto simp add: valid_element_def)

lemma element_results_valid_ids:
  assumes "list_all valid_element items"
    and "element_results srv ctx items st = Inr (rs, st')"
  shows "\<forall>r\<in>set rs. r = JNull \<or> (\<exists>i. js_get r ''id'' = Inr i \<and> is_id i)"
  using assms
proof (induction items arbitrary: st rs st')
  case Nil
  then show ?case by simp
next
  case (Cons item items)
  obtain r st1 where h: "handleSingleRequest srv item ctx st = Inr (r, st1)"
    using handleSingleRequest_total by blast
  obtain rs1 st2 where t: "element_results srv ctx items st1 = Inr (rs1, st2)"
    using element_results_total by blast
  have rs: "rs = r # rs1" using Cons.prems(2) h t by (simp add: js_bind_def)
  have "r = JNull \<or> (\<exists>i. js_get r ''id'' = Inr i \<and> is_id i)"
    using handleSingleRequest_valid_id[OF _ h] Cons.prems(1) by simp
  moreover have "\<forall>r\<in>set rs1. r = JNull \<or> (\<exists>i. js_get r ''id'' = Inr i \<and> is_id i)"
    using Cons.IH[OF _ t] Cons.prems(1) by simp
  ultimately show ?case unfolding rs by simp
qed

lemma element_results_notifications:
  assumes "\<forall>x\<in>set items. isJSONRPCNotification x = Inr True"
    and "element_results srv ctx items st = Inr (rs, st')"
  shows "filter (\<lambda>r. r \<noteq> JNull) rs = []"
  using assms
proof (induction items arbitrary: st rs st')
  case Nil
  then show ?case by simp
next
  case (Cons item items)
  obtain st1 where h: "handleSingleRequest srv item ctx st = Inr (JNull, st1)"
    using handleSingleRequest_notification[of item srv ctx st] Cons.prems(1) by auto
  obtain rs1 st2 where t: "element_results srv ctx items st1 = Inr (rs1, st2)"
    using element_results_total by blast
  have rs: "rs = JNull # rs1" using Cons.prems(2) h t by (simp add: js_bind_def)
  show ?case unfolding rs using Cons.IH[OF _ t] Cons.prems(1) by simp
qed

lemma handleJsonRpcRequest_batch:
  assumes "decode P raw = Inr (JArr items)" and "items \<noteq> []"
    and "isValidJsonRpcPayload (JArr items) = Inr True"
    and "element_results srv ctx items st = Inr (rs, st')"
  shows "handleJsonRpcRequest P srv raw ctx st =
     Inr (if filter (\<lambda>r. r \<noteq> JNull) rs = [] then JNull else JArr (filter (\<lambda>r. r \<noteq> JNull) rs), st')"
  using assms
  by (simp add: handleJsonRpcRequest_def js_bind_def batch_loop_element_results)

text \<open>
  Claim C5. For a valid batch that is not empty, the elements are handled one after the
  other; the result is the array of the results that are not \<^verbatim>\<open>null\<close>, in the order of
  the elements, and \<^verbatim>\<open>null\<close> itself (never an empty array) when every result is
  \<^verbatim>\<open>null\<close>, which is so for a batch of notifications of any length.
\<close>

theorem batch_responses_in_order:
  assumes "decode P raw = Inr (JArr items)" and "items \<noteq> []"
    and "isValidJsonRpcPayload (JArr items) = Inr True"
  shows "\<exists>rs st'.
     element_results srv ctx items st = Inr (rs, st') \<and> length rs = length items \<and>
     handleJsonRpcRequest P srv raw ctx st =
       Inr (if filter (\<lambda>r. r \<noteq> JNull) rs = [] then JNull else JArr (filter (\<lambda>r. r \<noteq> JNull) rs), st') \<and>
     ((\<forall>x\<in>set items. isJSONRPCNotification x = Inr True) \<longrightarrow>
        handleJsonRpcRequest P srv raw ctx st = Inr (JNull, st'))"
proof -
  obtain rs st' where t: "element_results srv ctx items st = Inr (rs, st')" "length rs = length items"
    using element_results_total by blast
  have h: "handleJsonRpcRequest P srv raw ctx st =
       Inr (if filter (\<lambda>r. r \<noteq> JNull) rs = [] then JNull else JArr (filter (\<lambda>r. r \<noteq> JNull) rs), st')"
    using handleJsonRpcRequest_batch[OF assms t(1)] .
  have "(\<forall>x\<in>set items. isJSONRPCNotification x = Inr True) \<longrightarrow>
        handleJsonRpcRequest P srv raw ctx st = Inr (JNull, st')"
    using h element_results_notifications[OF _ t(1)] by simp
  then show ?thesis using t h by blast
qed

text \<open>
  Claim C10. In a batch that has passed \<^verbatim>\<open>isValidJsonRpcPayload\<close>, no element is
  neither a request nor a notification, so the first branch of \<^verbatim>\<open>handleSingleRequest\<close>
  is not taken for it: whatever the state, the result of an element has no \<^verbatim>\<open>null\<close>
  id, and every response of the batch carries the string or number id of its request and
  is not the Invalid Request response.
\<close>

theorem valid_batch_no_invalid_request:
  assumes "decode P raw = Inr (JArr items)"
    and "isValidJsonRpcPayload (JArr items) = Inr True"
  shows "(\<forall>x\<in>set items. \<not> (isJSONRPCRequest x = Inr False \<and> isJSONRPCNotification x = Inr False)) \<and>
         (\<forall>x\<in>set items. \<forall>s r s'. handleSingleRequest srv x ctx s = Inr (r, s') \<longrightarrow>
              js_get r ''id'' \<noteq> Inr JNull) \<and>
         (\<forall>rs st'. handleJsonRpcRequest P srv raw ctx st = Inr (JArr rs, st') \<longrightarrow>
              (\<forall>r\<in>set rs. (\<exists>i. js_get r ''id'' = Inr i \<and> is_id i) \<and>
                 r \<noteq> createJsonRpcErrorResponse JNull (createStandardJsonRpcError INVALID_REQUEST JUndefined)))"
proof (intro conjI)
  have v: "list_all valid_element items"
    using assms(2) by (simp add: isValidJsonRpcPayload_array)
  show "\<forall>x\<in>set items. \<not> (isJSONRPCRequest x = Inr False \<and> isJSONRPCNotification x = Inr False)"
    using v by (auto simp add: list_all_iff valid_element_def)
  show "\<forall>x\<in>set items. \<forall>s r s'. handleSingleRequest srv x ctx s = Inr (r, s') \<longrightarrow>
              js_get r ''id'' \<noteq> Inr JNull"
  proof (intro ballI allI impI)
    fix x s r s'
    assume "x \<in> set items" and h: "handleSingleRequest srv x ctx s = Inr (r, s')"
    then have "valid_element x" using v by (simp add: list_all_iff)
    then show "js_get r ''id'' \<noteq> Inr JNull"
      using handleSingleRequest_valid_id[OF _ h] by (auto simp add: is_id_def)
  qed
  show "\<forall>rs st'. handleJsonRpcRequest P srv raw ctx st = Inr (JArr rs, st') \<longrightarrow>
              (\<forall>r\<in>set rs. (\<exists>i. js_get r ''id'' = Inr i \<and> is_id i) \<and>
                 r \<noteq> createJsonRpcErrorResponse JNull (createStandardJsonRpcError INVALID_REQUEST JUndefined))"
  proof (intro allI impI ballI)
    fix rs st' r
    assume h: "handleJsonRpcRequest P srv raw ctx st = Inr (JArr rs, st')" and r: "r \<in> set rs"
    obtain ers st2 where t: "element_results srv ctx items st = Inr (ers, st2)"
      using element_results_total by blast
    have ne: "items \<noteq> []"
      using h assms by (auto simp add: handleJsonRpcRequest_def js_bind_def invalid_request_response_eq)
    have "rs = filter (\<lambda>r. r \<noteq> JNull) ers"
      using h handleJsonRpcRequest_batch[OF assms(1) ne assms(2) t] by (simp split: if_splits)
    then have "r \<in> set ers" "r \<noteq> JNull" using r by auto
    then have i: "\<exists>i. js_get r ''id'' = Inr i \<and> is_id i"
      using element_results_valid_ids[OF v t] by auto
    then show "(\<exists>i. js_get r ''id'' = Inr i \<and> is_id i) \<and>
                 r \<noteq> createJsonRpcErrorResponse JNull (createStandardJsonRpcError INVALID_REQUEST JUndefined)"
      by (auto simp add: invalid_request_response_eq is_id_def)
  qed
qed

section \<open>The dispatcher on the example inputs\<close>

lemmas factory_defs = createJsonRpcRequest_def createJsonRpcNotification_def
  createJsonRpcSuccessResponse_def createJsonRpcErrorResponse_def createJsonRpcError_def
  createStandardJsonRpcError_def JSONRPC_ERROR_MESSAGES_def

lemmas guard_simps = isJSONRPCRequest_obj isJSONRPCNotification_obj isJSONRPCSuccessResponse_obj
  isJSONRPCErrorResponse_obj isJSONRPCError_obj is_id_def

lemma echo_request:
  "handleSingleRequest example_server (createJsonRpcRequest ''echo'' (JNum 1) (JStr ''hi'')) JUndefined st =
     Inr (JObj [(''jsonrpc'', JStr ''2.0''), (''id'', JNum 1), (''result'', JStr ''hi'')],
          st\<lparr>trace := trace st @ [Invoked ''echo'' (JStr ''hi'') JUndefined]\<rparr>)"
  by (simp add: handleSingleRequest_def factory_defs guard_simps js_bind_def example_server_def)

lemma echo_notification:
  "handleSingleRequest example_server (createJsonRpcNotification ''echo'' JUndefined) JUndefined st =
     Inr (JNull, st\<lparr>trace := trace st @ [Invoked ''echo'' JUndefined JUndefined]\<rparr>)"
  by (simp add: handleSingleRequest_def factory_defs guard_simps js_bind_def example_server_def)

lemma unknown_request:
  "handleSingleRequest example_server (createJsonRpcRequest ''nope'' (JNum 2) JUndefined) JUndefined st =
     Inr (JObj [(''jsonrpc'', JStr ''2.0''), (''id'', JNum 2),
                (''error'', JObj [(''code'', JNum (- 32601)), (''message'', JStr ''Method not found'')])],
          st\<lparr>trace := trace st @ [Logged LogWarn ''JSON-RPC method not found: nope'' []]\<rparr>)"
  by (simp add: handleSingleRequest_def factory_defs guard_simps js_bind_def example_server_def logger_def)

lemma read_request:
  "handleSingleRequest example_server (createJsonRpcRequest ''read'' (JNum 1) JUndefined) JUndefined st =
     Inr (JObj [(''jsonrpc'', JStr ''2.0''), (''id'', JNum 1), (''error'', fs_error)],
          st\<lparr>trace := trace st @ [Invoked ''read'' JUndefined JUndefined,
             Logged LogWarn ''JSON-RPC method error in read:'' [fs_error]]\<rparr>)"
  by (simp add: handleSingleRequest_def factory_defs guard_simps js_bind_def example_server_def
      logger_def is_custom_error_eq fs_error_def)

lemma example_batch_valid:
  "isValidJsonRpcPayload
     (JArr [createJsonRpcRequest ''echo'' (JNum 1) (JStr ''hi''),
            createJsonRpcNotification ''echo'' JUndefined,
            createJsonRpcRequest ''nope'' (JNum 2) JUndefined]) = Inr True"
  by (simp add: isValidJsonRpcPayload_array valid_element_def factory_defs guard_simps)

lemma example_batch_results:
  "element_results example_server JUndefined
     [createJsonRpcRequest ''echo'' (JNum 1) (JStr ''hi''),
      createJsonRpcNotification ''echo'' JUndefined,
      createJsonRpcRequest ''nope'' (JNum 2) JUndefined] idle =
   Inr ([JObj [(''jsonrpc'', JStr ''2.0''), (''id'', JNum 1), (''result'', JStr ''hi'')],
         JNull,
         JObj [(''jsonrpc'', JStr ''2.0''), (''id'', JNum 2),
               (''error'', JObj [(''code'', JNum (- 32601)), (''message'', JStr ''Method not found'')])]],
        \<lparr>world = (), trace = [Invoked ''echo'' (JStr ''hi'') JUndefined,
           Invoked ''echo'' JUndefined JUndefined,
           Logged LogWarn ''JSON-RPC method not found: nope'' []]\<rparr>)"
  by (simp add: js_bind_def echo_request echo_notification unknown_request idle_def)

text \<open>Claim C4 on a batch of a request and the number 3.\<close>

theorem invalid_payload_rejected_whole_witness:
  "handleJsonRpcRequest parse_nothing example_server
     (JArr [createJsonRpcRequest ''echo'' (JNum 1) (JStr ''hi''), JNum 3]) JUndefined idle =
   Inr (JObj [(''jsonrpc'', JStr ''2.0''), (''id'', JNull),
              (''error'', JObj [(''code'', JNum (- 32600)), (''message'', JStr ''Invalid Request'')])],
        \<lparr>world = (), trace = [Logged LogWarn ''JSON-RPC invalid request structure:''
           [JArr [createJsonRpcRequest ''echo'' (JNum 1) (JStr ''hi''), JNum 3]]]\<rparr>)"
proof -
  let ?v = "JArr [createJsonRpcRequest ''echo'' (JNum 1) (JStr ''hi''), JNum 3]"
  have d: "decode parse_nothing ?v = Inr ?v" by (simp add: decode_def)
  have h: "((\<forall>xs. ?v \<noteq> JArr xs) \<and> isJSONRPCRequest ?v = Inr False \<and> isJSONRPCNotification ?v = Inr False) \<or>
         (\<exists>xs x. ?v = JArr xs \<and> x \<in> set xs \<and>
                 isJSONRPCRequest x = Inr False \<and> isJSONRPCNotification x = Inr False)"
    by (rule disjI2, rule exI[of _ "[createJsonRpcRequest ''echo'' (JNum 1) (JStr ''hi''), JNum 3]"],
        rule exI[of _ "JNum 3"])
       (simp add: isJSONRPCRequest_other isJSONRPCNotification_other)
  show ?thesis
    using invalid_payload_rejected_whole[OF d h, of example_server JUndefined idle]
    by (simp add: idle_def)
qed

text \<open>Claim C5 on a batch of a request, a notification and a request for an unknown
  method, and on a batch of one notification.\<close>

theorem batch_responses_in_order_witness:
  "handleJsonRpcRequest parse_nothing example_server
     (JArr [createJsonRpcRequest ''echo'' (JNum 1) (JStr ''hi''),
            createJsonRpcNotification ''echo'' JUndefined,
            createJsonRpcRequest ''nope'' (JNum 2) JUndefined]) JUndefined idle =
   Inr (JArr [JObj [(''jsonrpc'', JStr ''2.0''), (''id'', JNum 1), (''result'', JStr ''hi'')],
              JObj [(''jsonrpc'', JStr ''2.0''), (''id'', JNum 2),
                    (''error'', JObj [(''code'', JNum (- 32601)), (''message'', JStr ''Method not found'')])]],
        \<lparr>world = (), trace = [Invoked ''echo'' (JStr ''hi'') JUndefined,
           Invoked ''echo'' JUndefined JUndefined,
           Logged LogWarn ''JSON-RPC method not found: nope'' []]\<rparr>) \<and>
   handleJsonRpcRequest parse_nothing example_server
     (JArr [createJsonRpcNotification ''echo'' JUndefined]) JUndefined idle =
   Inr (JNull, \<lparr>world = (), trace = [Invoked ''echo'' JUndefined JUndefined]\<rparr>)"
proof
  let ?items = "[createJsonRpcRequest ''echo'' (JNum 1) (JStr ''hi''),
            createJsonRpcNotification ''echo'' JUndefined,
            createJsonRpcRequest ''nope'' (JNum 2) JUndefined]"
  have d: "decode parse_nothing (JArr ?items) = Inr (JArr ?items)" by (simp add: decode_def)
  have ne: "?items \<noteq> []" by simp
  obtain rs st' where
    a: "element_results example_server JUndefined ?items idle = Inr (rs, st')" and
    b: "handleJsonRpcRequest parse_nothing example_server (JArr ?items) JUndefined idle =
       Inr (if filter (\<lambda>r. r \<noteq> JNull) rs = [] then JNull else JArr (filter (\<lambda>r. r \<noteq> JNull) rs), st')"
    using batch_responses_in_order[OF d ne example_batch_valid, of example_server JUndefined idle]
    by blast
  show "handleJsonRpcRequest parse_nothing example_server (JArr ?items) JUndefined idle =
   Inr (JArr [JObj [(''jsonrpc'', JStr ''2.0''), (''id'', JNum 1), (''result'', JStr ''hi'')],
              JObj [(''jsonrpc'', JStr ''2.0''), (''id'', JNum 2),
                    (''error'', JObj [(''code'', JNum (- 32601)), (''message'', JStr ''Method not found'')])]],
        \<lparr>world = (), trace = [Invoked ''echo'' (JStr ''hi'') JUndefined,
           Invoked ''echo'' JUndefined JUndefined,
           Logged LogWarn ''JSON-RPC method not found: nope'' []]\<rparr>)"
    using a b unfolding example_batch_results by auto
next
  let ?items = "[createJsonRpcNotification ''echo'' JUndefined]"
  have d: "decode parse_nothing (JArr ?items) = Inr (JArr ?items)" by (simp add: decode_def)
  have ne: "?items \<noteq> []" by simp
  have v: "isValidJsonRpcPayload (JArr ?items) = Inr True"
    by (simp add: isValidJsonRpcPayload_array valid_element_def factory_defs guard_simps)
  have n: "\<forall>x\<in>set ?items. isJSONRPCNotification x = Inr True"
    by (simp add: factory_defs guard_simps)
  obtain rs st' where
    a: "element_results example_server JUndefined ?items idle = Inr (rs, st')" and
    b: "handleJsonRpcRequest parse_nothing example_server (JArr ?items) JUndefined idle = Inr (JNull, st')"
    using batch_responses_in_order[OF d ne v, of example_server JUndefined idle] n
    by blast
  have "element_results example_server JUndefined ?items idle =
      Inr ([JNull], \<lparr>world = (), trace = [Invoked ''echo'' JUndefined JUndefined]\<rparr>)"
    by (simp add: js_bind_def echo_notification idle_def)
  then show "handleJsonRpcRequest parse_nothing example_server (JArr ?items) JUndefined idle =
      Inr (JNull, \<lparr>world = (), trace = [Invoked ''echo'' JUndefined JUndefined]\<rparr>)"
    using a b by simp
qed

text \<open>Claim C10 on the batch of three.\<close>

theorem valid_batch_no_invalid_request_witness:
  "list_all (\<lambda>r. r \<noteq> createJsonRpcErrorResponse JNull (createStandardJsonRpcError INVALID_REQUEST JUndefined))
     [JObj [(''jsonrpc'', JStr ''2.0''), (''id'', JNum 1), (''result'', JStr ''hi'')],
      JObj [(''jsonrpc'', JStr ''2.0''), (''id'', JNum 2),
            (''error'', JObj [(''code'', JNum (- 32601)), (''message'', JStr ''Method not found'')])]] \<and>
   handleJsonRpcRequest parse_nothing example_server
     (JArr [createJsonRpcRequest ''echo'' (JNum 1) (JStr ''hi''),
            createJsonRpcNotification ''echo'' JUndefined,
            createJsonRpcRequest ''nope'' (JNum 2) JUndefined]) JUndefined idle =
   Inr (JArr [JObj [(''jsonrpc'', JStr ''2.0''), (''id'', JNum 1), (''result'', JStr ''hi'')],
              JObj [(''jsonrpc'', JStr ''2.0''), (''id'', JNum 2),
                    (''error'', JObj [(''code'', JNum (- 32601)), (''message'', JStr ''Method not found'')])]],
        \<lparr>world = (), trace = [Invoked ''echo'' (JStr ''hi'') JUndefined,
           Invoked ''echo'' JUndefined JUndefined,
           Logged LogWarn ''JSON-RPC method not found: nope'' []]\<rparr>)"
proof -
  let ?items = "[createJsonRpcRequest ''echo'' (JNum 1) (JStr ''hi''),
            createJsonRpcNotification ''echo'' JUndefined,
            createJsonRpcRequest ''nope'' (JNum 2) JUndefined]"
  have d: "decode parse_nothing (JArr ?items) = Inr (JArr ?items)" by (simp add: decode_def)
  have h: "handleJsonRpcRequest parse_nothing example_server (JArr ?items) JUndefined idle =
   Inr (JArr [JObj [(''jsonrpc'', JStr ''2.0''), (''id'', JNum 1), (''result'', JStr ''hi'')],
              JObj [(''jsonrpc'', JStr ''2.0''), (''id'', JNum 2),
                    (''error'', JObj [(''code'', JNum (- 32601)), (''message'', JStr ''Method not found'')])]],
        \<lparr>world = (), trace = [Invoked ''echo'' (JStr ''hi'') JUndefined,
           Invoked ''echo'' JUndefined JUndefined,
           Logged LogWarn ''JSON-RPC method not found: nope'' []]\<rparr>)"
    using handleJsonRpcRequest_batch[OF d _ example_batch_valid example_batch_results] by simp
  show ?thesis
    using valid_batch_no_invalid_request[OF d example_batch_valid, of example_server JUndefined idle] h
    by (simp add: list_all_iff)
qed

section \<open>Failures of handlers\<close>

text \<open>
  What the \<^verbatim>\<open>catch\<close> block answers to a request whose handler has failed: the failure
  value itself when it passes the test of the block, the Internal error otherwise. An error
  object passes the test.
\<close>

lemma error_object_is_custom: "isJSONRPCError e = Inr True \<Longrightarrow> is_custom_error e = Inr True"
  using isJSONRPCError_other[of e]
  by (cases "\<exists>kvs. e = JObj kvs") (auto simp add: is_custom_error_eq isJSONRPCError_obj)

lemma request_failure_response:
  assumes "isJSONRPCRequest request = Inr True"
    and "js_get request ''method'' = Inr (JStr m)" and "js_get request ''params'' = Inr params"
    and "js_get request ''id'' = Inr i"
    and "methods srv m = Some h" and "h params ctx (world st) = (Throws e, w)"
  shows "\<exists>st'. handleSingleRequest srv request ctx st =
     Inr (createJsonRpcErrorResponse i
            (if is_custom_error e = Inr True then e
             else createStandardJsonRpcError INTERNAL_ERROR JUndefined), st')"
proof -
  have n: "isJSONRPCNotification request = Inr False"
    using assms(1) request_not_notification[of request] isJSONRPCNotification_total[of request]
    by auto
  show ?thesis
    using assms(2-6) unfolding handleSingleRequest_def assms(1) n
    by (simp add: js_bind_def is_custom_error_eq)
qed

text \<open>
  Claim C2 at a failing input. The handler of \<^verbatim>\<open>read\<close> throws
  \<^verbatim>\<open>{code: 'ENOENT', message: 'no such file: /srv/keys/master.pem'}\<close>, which is not an
  error object (its code is a string). The test of the \<^verbatim>\<open>catch\<close> block asks only for
  the presence of \<^verbatim>\<open>code\<close> and \<^verbatim>\<open>message\<close>, so the dispatcher answers with that
  object, not with the Internal error.
\<close>

theorem failure_with_string_code_returned:
  "isJSONRPCError fs_error = Inr False \<and>
   handleSingleRequest example_server (createJsonRpcRequest ''read'' (JNum 1) JUndefined) JUndefined idle =
     Inr (createJsonRpcErrorResponse (JNum 1) fs_error,
          \<lparr>world = (), trace = [Invoked ''read'' JUndefined JUndefined,
             Logged LogWarn ''JSON-RPC method error in read:'' [fs_error]]\<rparr>)"
  by (simp add: read_request idle_def createJsonRpcErrorResponse_def)
     (simp add: fs_error_def isJSONRPCError_obj)

text \<open>
  The dispatcher returns on every payload, whatever the handlers do, and the failures of
  the payload itself become error responses with id \<^verbatim>\<open>null\<close>.
\<close>

lemma payload_level_failures:
  "(decode P raw = Inl e \<longrightarrow>
      handleJsonRpcRequest P srv raw ctx st =
        Inr (createJsonRpcErrorResponse JNull (createStandardJsonRpcError PARSE_ERROR JUndefined),
             logger LogError ''JSON-RPC parse error:'' [e] st)) \<and>
   (decode P raw = Inr v \<and> isValidJsonRpcPayload v = Inr False \<longrightarrow>
      handleJsonRpcRequest P srv raw ctx st =
        Inr (createJsonRpcErrorResponse JNull (createStandardJsonRpcError INVALID_REQUEST JUndefined),
             logger LogWarn ''JSON-RPC invalid request structure:'' [v] st)) \<and>
   (decode P raw = Inr (JArr []) \<longrightarrow>
      handleJsonRpcRequest P srv raw ctx st =
        Inr (createJsonRpcErrorResponse JNull (createStandardJsonRpcError INVALID_REQUEST JUndefined),
             logger LogWarn ''JSON-RPC empty batch request'' [] st)) \<and>
   isJSONRPCErrorResponse
     (createJsonRpcErrorResponse JNull (createStandardJsonRpcError code JUndefined)) = Inr True"
  by (cases code)
    (simp_all add: handleJsonRpcRequest_def js_bind_def isValidJsonRpcPayload_array
      factory_defs guard_simps)

text \<open>
  When every failure value of a handler that passes the test of the \<^verbatim>\<open>catch\<close> block is
  an error object, the result of the dispatcher is \<^verbatim>\<open>null\<close>, a response, or an array
  of responses that is not empty.
\<close>

lemma standard_error_response:
  "x = JNull \<or> is_id x \<Longrightarrow>
   isJSONRPCErrorResponse (createJsonRpcErrorResponse x (createStandardJsonRpcError code JUndefined)) = Inr True"
  by (cases code) (auto simp add: factory_defs guard_simps)

lemma handleSingleRequest_result_shape:
  assumes ok: "\<forall>m h p c w e w'. methods srv m = Some h \<and> h p c w = (Throws e, w') \<and>
             is_custom_error e = Inr True \<longrightarrow> isJSONRPCError e = Inr True"
    and h: "handleSingleRequest srv v ctx st = Inr (r, st')"
  shows "r = JNull \<or> isJSONRPCResponse r = Inr True"
proof (cases "valid_element v")
  case False
  then have "r = createJsonRpcErrorResponse JNull (createStandardJsonRpcError INVALID_REQUEST JUndefined)"
    using h by (simp add: not_valid_element_iff handleSingleRequest_invalid)
  then show ?thesis
    using standard_error_response[of JNull INVALID_REQUEST]
    by (simp add: isJSONRPCResponse_def js_or_def isJSONRPCSuccessResponse_obj createJsonRpcErrorResponse_def)
next
  case True
  show ?thesis
  proof (cases "isJSONRPCNotification v = Inr True")
    case True
    then show ?thesis using handleSingleRequest_notification[of v srv ctx st] h by auto
  next
    case False
    then have req: "isJSONRPCRequest v = Inr True" and n: "isJSONRPCNotification v = Inr False"
      using \<open>valid_element v\<close> isJSONRPCNotification_total[of v] by (auto simp add: valid_element_def)
    obtain kvs where v: "v = JObj kvs" using req request_is_object by blast
    obtain i m where i: "map_of kvs ''id'' = Some i" "is_id i" and m: "map_of kvs ''method'' = Some (JStr m)"
      using req unfolding v isJSONRPCRequest_obj by auto
    let ?p = "case map_of kvs ''params'' of None \<Rightarrow> JUndefined | Some p \<Rightarrow> p"
    show ?thesis
    proof (cases "methods srv m")
      case None
      then show ?thesis
        using h i m standard_error_response[of i METHOD_NOT_FOUND]
        unfolding handleSingleRequest_def req n
        by (auto simp add: v js_bind_def isJSONRPCResponse_def js_or_def isJSONRPCSuccessResponse_obj
            createJsonRpcErrorResponse_def split: if_splits)
    next
      case (Some hd)
      obtain out w where o: "hd ?p ctx (world st) = (out, w)" by (cases "hd ?p ctx (world st)")
      show ?thesis
      proof (cases out)
        case (Returns res)
        then show ?thesis
          using h i m Some o unfolding handleSingleRequest_def req n
          by (auto simp add: v js_bind_def isJSONRPCResponse_def js_or_def isJSONRPCSuccessResponse_obj)
      next
        case (Throws e)
        show ?thesis
        proof (cases "is_custom_error e = Inr True")
          case True
          then have "isJSONRPCError e = Inr True" using ok Some o Throws by blast
          moreover have "r = createJsonRpcErrorResponse i e"
            using h i m Some o Throws True unfolding handleSingleRequest_def req n
            by (auto simp add: v js_bind_def)
          ultimately show ?thesis
            using i(2)
            by (simp add: isJSONRPCResponse_def js_or_def isJSONRPCSuccessResponse_obj
                isJSONRPCErrorResponse_obj createJsonRpcErrorResponse_def)
        next
          case False
          then have f: "is_custom_error e = Inr False" by (simp add: is_custom_error_eq)
          have "r = createJsonRpcErrorResponse i (createStandardJsonRpcError INTERNAL_ERROR JUndefined)"
            using h i m Some o Throws f unfolding handleSingleRequest_def req n
            by (auto simp add: v js_bind_def)
          then show ?thesis
            using standard_error_response[of i INTERNAL_ERROR] i(2)
            by (simp add: isJSONRPCResponse_def js_or_def isJSONRPCSuccessResponse_obj
                createJsonRpcErrorResponse_def)
        qed
      qed
    qed
  qed
qed

lemma element_results_shape:
  assumes ok: "\<forall>m h p c w e w'. methods srv m = Some h \<and> h p c w = (Throws e, w') \<and>
             is_custom_error e = Inr True \<longrightarrow> isJSONRPCError e = Inr True"
    and "element_results srv ctx items st = Inr (rs, st')"
  shows "\<forall>r\<in>set rs. r = JNull \<or> isJSONRPCResponse r = Inr True"
  using assms(2)
proof (induction items arbitrary: st rs st')
  case Nil
  then show ?case by simp
next
  case (Cons item items)
  obtain r st1 where h: "handleSingleRequest srv item ctx st = Inr (r, st1)"
    using handleSingleRequest_total by blast
  obtain rs1 st2 where t: "element_results srv ctx items st1 = Inr (rs1, st2)"
    using element_results_total by blast
  have rs: "rs = r # rs1" using Cons.prems h t by (simp add: js_bind_def)
  show ?case
    unfolding rs using handleSingleRequest_result_shape[OF ok h] Cons.IH[OF t] by simp
qed

lemma dispatch_result_shape:
  assumes ok: "\<forall>m h p c w e w'. methods srv m = Some h \<and> h p c w = (Throws e, w') \<and>
             is_custom_error e = Inr True \<longrightarrow> isJSONRPCError e = Inr True"
    and h: "handleJsonRpcRequest P srv raw ctx st = Inr (r, st')"
  shows "r = JNull \<or> isJSONRPCResponse r = Inr True \<or>
         (\<exists>rs. r = JArr rs \<and> rs \<noteq> [] \<and> (\<forall>x\<in>set rs. isJSONRPCResponse x = Inr True))"
proof (cases "decode P raw")
  case (Inl e)
  then have "r = createJsonRpcErrorResponse JNull (createStandardJsonRpcError PARSE_ERROR JUndefined)"
    using h by (simp add: handleJsonRpcRequest_def)
  then show ?thesis
    using standard_error_response[of JNull PARSE_ERROR]
    by (simp add: isJSONRPCResponse_def js_or_def isJSONRPCSuccessResponse_obj createJsonRpcErrorResponse_def)
next
  case (Inr v)
  have inv: "isJSONRPCResponse
      (createJsonRpcErrorResponse JNull (createStandardJsonRpcError INVALID_REQUEST JUndefined)) = Inr True"
    using standard_error_response[of JNull INVALID_REQUEST]
    by (simp add: isJSONRPCResponse_def js_or_def isJSONRPCSuccessResponse_obj createJsonRpcErrorResponse_def)
  show ?thesis
  proof (cases "isValidJsonRpcPayload v = Inr True")
    case False
    then have "isValidJsonRpcPayload v = Inr False"
      by (cases "\<exists>xs. v = JArr xs") (auto simp add: isValidJsonRpcPayload_array isValidJsonRpcPayload_single)
    then show ?thesis using h Inr inv by (simp add: handleJsonRpcRequest_def js_bind_def)
  next
    case True
    show ?thesis
    proof (cases "\<exists>items. v = JArr items")
      case False
      then have "handleSingleRequest srv v ctx st = Inr (r, st')"
        using h Inr True by (cases v) (simp_all add: handleJsonRpcRequest_def js_bind_def)
      then show ?thesis using handleSingleRequest_result_shape[OF ok] by blast
    next
      case isarr: True
      then obtain items where v: "v = JArr items" by blast
      show ?thesis
      proof (cases "items = []")
        case True
        then show ?thesis using h Inr inv \<open>isValidJsonRpcPayload v = Inr True\<close> unfolding v
          by (simp add: handleJsonRpcRequest_def js_bind_def)
      next
        case False
        obtain rs st2 where t: "element_results srv ctx items st = Inr (rs, st2)"
          using element_results_total by blast
        have "r = (if filter (\<lambda>r. r \<noteq> JNull) rs = [] then JNull else JArr (filter (\<lambda>r. r \<noteq> JNull) rs))"
          using h handleJsonRpcRequest_batch[OF Inr[unfolded v] False True[unfolded v] t] by simp
        then show ?thesis using element_results_shape[OF ok t] by auto
      qed
    qed
  qed
qed

text \<open>
  Claim C3 at a failing input. The dispatcher returns, but what it returns for the request
  to \<^verbatim>\<open>read\<close> is not a response: \<^verbatim>\<open>isJSONRPCResponse\<close> rejects it, the code of its
  error being a string.
\<close>

theorem dispatch_result_not_a_response:
  "handleJsonRpcRequest parse_nothing example_server
     (createJsonRpcRequest ''read'' (JNum 1) JUndefined) JUndefined idle =
     Inr (JObj [(''jsonrpc'', JStr ''2.0''), (''id'', JNum 1), (''error'', fs_error)],
          \<lparr>world = (), trace = [Invoked ''read'' JUndefined JUndefined,
             Logged LogWarn ''JSON-RPC method error in read:'' [fs_error]]\<rparr>) \<and>
   isJSONRPCResponse (JObj [(''jsonrpc'', JStr ''2.0''), (''id'', JNum 1), (''error'', fs_error)]) = Inr False"
proof
  have v: "valid_element (createJsonRpcRequest ''read'' (JNum 1) JUndefined)"
    by (simp add: valid_element_def factory_defs guard_simps)
  show "handleJsonRpcRequest parse_nothing example_server
     (createJsonRpcRequest ''read'' (JNum 1) JUndefined) JUndefined idle =
     Inr (JObj [(''jsonrpc'', JStr ''2.0''), (''id'', JNum 1), (''error'', fs_error)],
          \<lparr>world = (), trace = [Invoked ''read'' JUndefined JUndefined,
             Logged LogWarn ''JSON-RPC method error in read:'' [fs_error]]\<rparr>)"
    using v read_request[of idle]
    by (simp add: handleJsonRpcRequest_def decode_def isValidJsonRpcPayload_single js_bind_def
        createJsonRpcRequest_def idle_def)
  show "isJSONRPCResponse (JObj [(''jsonrpc'', JStr ''2.0''), (''id'', JNum 1), (''error'', fs_error)]) = Inr False"
    by (simp add: isJSONRPCResponse_def js_or_def guard_simps fs_error_def)
qed

section \<open>Properties of the client\<close>

lemma js_get_Inr_not_null: "js_get r k = Inr i \<Longrightarrow> r \<noteq> JNull \<and> r \<noteq> JUndefined"
  by (cases r) simp_all

lemma js_get_total: "r \<noteq> JNull \<Longrightarrow> r \<noteq> JUndefined \<Longrightarrow> \<exists>x. js_get r k = Inr x"
  by (cases r) simp_all

lemma unmatched_dropped:
  assumes "js_get response ''id'' = Inr i" and "i = JNull \<or> i \<notin> pendingRequests c"
  shows "handleSingleResponse response (c, rt) = (None, (c, rt))"
  using assms by (auto simp add: handleSingleResponse_def try_js_def)

lemma handleSingleResponse_success:
  assumes "isJSONRPCSuccessResponse r = Inr True" and "js_get r ''id'' = Inr i"
  shows "\<exists>res. js_get r ''result'' = Inr res \<and>
     (\<forall>c rt. i \<in> pendingRequests c \<longrightarrow>
        handleSingleResponse r (c, rt) =
          (None, (c\<lparr>pendingRequests := pendingRequests c - {i}\<rparr>,
                  rt\<lparr>settled := settled rt @ [(i, Fulfilled res)]\<rparr>)))"
proof -
  obtain kvs where r: "r = JObj kvs" using assms(1) success_is_object by blast
  have "i \<noteq> JNull"
    using assms(1,2) unfolding r isJSONRPCSuccessResponse_obj by (auto simp add: is_id_def)
  then show ?thesis
    using assms unfolding r
    by (simp add: handleSingleResponse_def try_js_def Let_def)
qed

lemma handleSingleResponse_error:
  assumes "isJSONRPCErrorResponse r = Inr True"
    and "js_get r ''id'' = Inr i" and "i \<noteq> JNull"
  shows "\<exists>eo message code data ev.
     js_get r ''error'' = Inr eo \<and> js_get eo ''message'' = Inr message \<and>
     js_get eo ''code'' = Inr code \<and> js_get eo ''data'' = Inr data \<and>
     js_get ev ''message'' = Inr message \<and> js_get ev ''code'' = Inr code \<and>
     js_get ev ''data'' = Inr data \<and>
     (\<forall>c rt. i \<in> pendingRequests c \<longrightarrow>
        handleSingleResponse r (c, rt) =
          (None, (c\<lparr>pendingRequests := pendingRequests c - {i}\<rparr>,
                  rt\<lparr>settled := settled rt @ [(i, Rejected (Thrown ev))]\<rparr>)))"
proof -
  obtain kvs where r: "r = JObj kvs" using assms(1) error_response_is_object by blast
  obtain eo where eo: "map_of kvs ''error'' = Some eo" "isJSONRPCError eo = Inr True"
    using assms(1) unfolding r isJSONRPCErrorResponse_obj by auto
  obtain ekvs where ekvs: "eo = JObj ekvs" using eo(2) isJSONRPCError_other[of eo] by auto
  obtain n s where ns: "map_of ekvs ''code'' = Some (JNum n)" "map_of ekvs ''message'' = Some (JStr s)"
    using eo(2) unfolding ekvs isJSONRPCError_obj by auto
  have ns': "isJSONRPCSuccessResponse r = Inr False"
    using assms(1) success_not_error[of r] isJSONRPCSuccessResponse_total[of r] by auto
  show ?thesis
    apply (rule exI[of _ eo])
    apply (rule exI[of _ "JStr s"])
    apply (rule exI[of _ "JNum n"])
    apply (rule exI[of _ "case map_of ekvs ''data'' of None \<Rightarrow> JUndefined | Some d \<Rightarrow> d"])
    apply (rule exI[of _ "assign (assign (new_Error (JStr s)) ''code'' (JNum n)) ''data''
                            (case map_of ekvs ''data'' of None \<Rightarrow> JUndefined | Some d \<Rightarrow> d)"])
    using assms ns' eo(1) ns unfolding r ekvs
    by (simp add: handleSingleResponse_def try_js_def Let_def new_Error_def)
qed


lemma settlements_of_append:
  "settlements_of i (rt\<lparr>settled := settled rt @ [(j, x)]\<rparr>) =
     settlements_of i rt @ (if j = i then [x] else [])"
  by (simp add: settlements_of_def)

text \<open>One response: only the entry and the continuation of its own id are touched.\<close>

lemma handleSingleResponse_shape:
  assumes "handleSingleResponse x (c, rt) = (e, (c', rt'))"
  shows "(c' = c \<and> rt' = rt) \<or>
         (\<exists>j. js_get x ''id'' = Inr j \<and> j \<in> pendingRequests c \<and>
              c' = c\<lparr>pendingRequests := pendingRequests c - {j}\<rparr> \<and>
              (rt' = rt \<or> (\<exists>s. rt' = rt\<lparr>settled := settled rt @ [(j, s)]\<rparr>)))"
  using assms
  by (auto simp add: handleSingleResponse_def try_js_def Let_def split: sum.splits if_splits)

lemma handleSingleResponse_frame:
  assumes "handleSingleResponse x (c, rt) = (e, (c', rt'))"
  shows "pendingRequests c' \<subseteq> pendingRequests c \<and>
         (i \<notin> pendingRequests c \<longrightarrow> settlements_of i rt' = settlements_of i rt) \<and>
         (js_get x ''id'' \<noteq> Inr i \<longrightarrow>
            (i \<in> pendingRequests c' \<longleftrightarrow> i \<in> pendingRequests c) \<and>
            settlements_of i rt' = settlements_of i rt)"
  using handleSingleResponse_shape[OF assms]
  by (auto simp add: settlements_of_append)

lemma handleSingleResponse_no_throw:
  assumes "x \<noteq> JNull" and "x \<noteq> JUndefined"
  shows "\<exists>c' rt'. handleSingleResponse x (c, rt) = (None, (c', rt'))"
proof -
  obtain j where j: "js_get x ''id'' = Inr j" using js_get_total[OF assms] by blast
  show ?thesis
  proof (cases "j = JNull \<or> j \<notin> pendingRequests c")
    case True
    then show ?thesis using j by (auto simp add: handleSingleResponse_def try_js_def)
  next
    case False
    then have p: "j \<noteq> JNull" "j \<in> pendingRequests c" by auto
    obtain b1 where b1: "isJSONRPCSuccessResponse x = Inr b1"
      using isJSONRPCSuccessResponse_total by blast
    obtain b2 where b2: "isJSONRPCErrorResponse x = Inr b2"
      using isJSONRPCErrorResponse_total by blast
    show ?thesis
    proof (cases b1)
      case True
      then show ?thesis
        using handleSingleResponse_success[of x j] b1 j p by auto
    next
      case nb1: False
      show ?thesis
      proof (cases b2)
        case True
        then show ?thesis
          using handleSingleResponse_error[of x j] b2 j p by auto
      next
        case False
        then show ?thesis
          using j p b1 b2 nb1 by (simp add: handleSingleResponse_def try_js_def Let_def)
      qed
    qed
  qed
qed

lemma handleResponses_frame:
  assumes "handleResponses xs (c, rt) = (e, (c', rt'))" and "i \<notin> pendingRequests c"
  shows "i \<notin> pendingRequests c' \<and> settlements_of i rt' = settlements_of i rt"
  using assms
proof (induction xs arbitrary: c rt)
  case Nil
  then show ?case by simp
next
  case (Cons x xs)
  obtain e1 c1 rt1 where h: "handleSingleResponse x (c, rt) = (e1, (c1, rt1))"
    by (metis prod.exhaust)
  have f: "i \<notin> pendingRequests c1" "settlements_of i rt1 = settlements_of i rt"
    using handleSingleResponse_frame[OF h, of i] Cons.prems(2) by auto
  show ?case
  proof (cases e1)
    case None
    then show ?thesis using Cons.IH[of c1 rt1] Cons.prems(1) h f by simp
  next
    case (Some t)
    then show ?thesis using Cons.prems(1) h f by simp
  qed
qed

lemma handleResponses_prefix:
  assumes "\<forall>x\<in>set pre. x \<noteq> JNull \<and> x \<noteq> JUndefined \<and> js_get x ''id'' \<noteq> Inr i"
  shows "\<exists>c1 rt1. handleResponses pre (c, rt) = (None, (c1, rt1)) \<and>
           (i \<in> pendingRequests c1 \<longleftrightarrow> i \<in> pendingRequests c) \<and>
           settlements_of i rt1 = settlements_of i rt \<and>
           (\<forall>rest. handleResponses (pre @ rest) (c, rt) = handleResponses rest (c1, rt1))"
  using assms
proof (induction pre arbitrary: c rt)
  case Nil
  then show ?case by simp
next
  case (Cons x pre)
  obtain c0 rt0 where h: "handleSingleResponse x (c, rt) = (None, (c0, rt0))"
    using handleSingleResponse_no_throw[of x c rt] Cons.prems by auto
  have f: "i \<in> pendingRequests c0 \<longleftrightarrow> i \<in> pendingRequests c" "settlements_of i rt0 = settlements_of i rt"
    using handleSingleResponse_frame[OF h, of i] Cons.prems by auto
  obtain c1 rt1 where t: "handleResponses pre (c0, rt0) = (None, (c1, rt1))"
      "i \<in> pendingRequests c1 \<longleftrightarrow> i \<in> pendingRequests c0"
      "settlements_of i rt1 = settlements_of i rt0"
      "\<forall>rest. handleResponses (pre @ rest) (c0, rt0) = handleResponses rest (c1, rt1)"
    using Cons.IH[of c0 rt0] Cons.prems by auto
  show ?case using h f t by simp
qed

lemma call_catch_frame:
  assumes "call_catch t j (c, rt) = (c', rt')" and "i \<notin> pendingRequests c"
  shows "i \<notin> pendingRequests c' \<and> settlements_of i rt' = settlements_of i rt"
  using assms by (auto simp add: call_catch_def settlements_of_append split: if_splits)

text \<open>After the response for \<open>i\<close> has been routed, nothing calls its continuation again.\<close>

lemma call_then_after:
  assumes r: "handleSingleResponse r (c1, rt1) = (None, (c2, rt2))"
    and "i \<notin> pendingRequests c2"
    and pre: "handleResponses pre (c, rt) = (None, (c1, rt1))"
            "\<forall>rest. handleResponses (pre @ rest) (c, rt) = handleResponses rest (c1, rt1)"
    and "call_then (JArr (pre @ r # post)) reqid (c, rt) = (c', rt')"
  shows "i \<notin> pendingRequests c' \<and> settlements_of i rt' = settlements_of i rt2"
proof -
  obtain e c3 rt3 where p: "handleResponses post (c2, rt2) = (e, (c3, rt3))"
    by (metis prod.exhaust)
  have f3: "i \<notin> pendingRequests c3" "settlements_of i rt3 = settlements_of i rt2"
    using handleResponses_frame[OF p assms(2)] by auto
  have all: "handleResponses (pre @ r # post) (c, rt) = (e, (c3, rt3))"
    using pre(2) r p by simp
  show ?thesis
  proof (cases e)
    case None
    then show ?thesis using assms(5) all f3 by (simp add: call_then_def handleResponse_def)
  next
    case (Some t)
    then have "call_catch t reqid (c3, rt3) = (c', rt')"
      using assms(5) all by (simp add: call_then_def handleResponse_def)
    then show ?thesis using call_catch_frame[of t reqid c3 rt3 c' rt' i] f3 by simp
  qed
qed


lemma routed:
  assumes "i \<in> pendingRequests c"
    and "R = r \<or> (R = JArr (pre @ r # post) \<and>
           (\<forall>x\<in>set pre. x \<noteq> JNull \<and> x \<noteq> JUndefined \<and> js_get x ''id'' \<noteq> Inr i))"
    and one: "\<forall>c1 rt1. i \<in> pendingRequests c1 \<longrightarrow>
        handleSingleResponse r (c1, rt1) =
          (None, (c1\<lparr>pendingRequests := pendingRequests c1 - {i}\<rparr>,
                  rt1\<lparr>settled := settled rt1 @ [(i, s)]\<rparr>))"
    and obj: "\<forall>xs. r \<noteq> JArr xs"
    and "call_then R reqid (c, rt) = (c', rt')"
  shows "settlements_of i rt' = settlements_of i rt @ [s] \<and> i \<notin> pendingRequests c'"
  using assms(2)
proof (elim disjE conjE)
  assume "R = r"
  then have "call_then R reqid (c, rt) =
      (c\<lparr>pendingRequests := pendingRequests c - {i}\<rparr>, rt\<lparr>settled := settled rt @ [(i, s)]\<rparr>)"
    using one assms(1) obj by (cases r) (simp_all add: call_then_def handleResponse_def)
  then show ?thesis using assms(5) by (auto simp add: settlements_of_append)
next
  assume R: "R = JArr (pre @ r # post)"
    and pre: "\<forall>x\<in>set pre. x \<noteq> JNull \<and> x \<noteq> JUndefined \<and> js_get x ''id'' \<noteq> Inr i"
  obtain c1 rt1 where p: "handleResponses pre (c, rt) = (None, (c1, rt1))"
      "i \<in> pendingRequests c1 \<longleftrightarrow> i \<in> pendingRequests c"
      "settlements_of i rt1 = settlements_of i rt"
      "\<forall>rest. handleResponses (pre @ rest) (c, rt) = handleResponses rest (c1, rt1)"
    using handleResponses_prefix[OF pre, of c rt] by blast
  have i1: "i \<in> pendingRequests c1" using p(2) assms(1) by simp
  have h: "handleSingleResponse r (c1, rt1) =
          (None, (c1\<lparr>pendingRequests := pendingRequests c1 - {i}\<rparr>,
                  rt1\<lparr>settled := settled rt1 @ [(i, s)]\<rparr>))"
    using one i1 by blast
  have "i \<notin> pendingRequests c' \<and>
        settlements_of i rt' = settlements_of i (rt1\<lparr>settled := settled rt1 @ [(i, s)]\<rparr>)"
    using call_then_after[OF h _ p(1) p(4), of i post reqid c' rt'] assms(5) R by simp
  then show ?thesis using p(3) by (simp add: settlements_of_append)
qed

text \<open>
  Claim C6, as the code has it. Let the call with id \<open>i\<close> be pending and the transport
  be fulfilled with \<open>r\<close>, or with an array in which \<open>r\<close> is the first element whose id
  is \<open>i\<close> and no element before \<open>r\<close> is \<^verbatim>\<open>null\<close> or \<^verbatim>\<open>undefined\<close>. If \<open>r\<close> is a
  success response, the continuation of the call is called once, fulfilling with the
  \<^verbatim>\<open>result\<close> of \<open>r\<close>; if \<open>r\<close> is an error response, it is called once, rejecting with a
  value whose \<^verbatim>\<open>message\<close>, \<^verbatim>\<open>code\<close> and \<^verbatim>\<open>data\<close> are those of the error of \<open>r\<close>.
  The entry of \<open>i\<close> is removed.
\<close>

theorem response_routed_to_pending_call:
  assumes "i \<in> pendingRequests c" and "i \<noteq> JNull"
    and "js_get r ''id'' = Inr i"
    and "R = r \<or> (R = JArr (pre @ r # post) \<and>
           (\<forall>x\<in>set pre. x \<noteq> JNull \<and> x \<noteq> JUndefined \<and> js_get x ''id'' \<noteq> Inr i))"
    and "call_then R reqid (c, rt) = (c', rt')"
  shows "(isJSONRPCSuccessResponse r = Inr True \<longrightarrow>
            (\<exists>res. js_get r ''result'' = Inr res \<and>
                   settlements_of i rt' = settlements_of i rt @ [Fulfilled res] \<and>
                   i \<notin> pendingRequests c')) \<and>
         (isJSONRPCErrorResponse r = Inr True \<longrightarrow>
            (\<exists>eo message code data ev.
                js_get r ''error'' = Inr eo \<and> js_get eo ''message'' = Inr message \<and>
                js_get eo ''code'' = Inr code \<and> js_get eo ''data'' = Inr data \<and>
                js_get ev ''message'' = Inr message \<and> js_get ev ''code'' = Inr code \<and>
                js_get ev ''data'' = Inr data \<and>
                settlements_of i rt' = settlements_of i rt @ [Rejected (Thrown ev)] \<and>
                i \<notin> pendingRequests c'))"
proof (intro conjI impI)
  assume s: "isJSONRPCSuccessResponse r = Inr True"
  then have obj: "\<forall>xs. r \<noteq> JArr xs" using success_is_object by blast
  obtain res where res: "js_get r ''result'' = Inr res"
    "\<forall>c rt. i \<in> pendingRequests c \<longrightarrow>
        handleSingleResponse r (c, rt) =
          (None, (c\<lparr>pendingRequests := pendingRequests c - {i}\<rparr>,
                  rt\<lparr>settled := settled rt @ [(i, Fulfilled res)]\<rparr>))"
    using handleSingleResponse_success[OF s assms(3)] by blast
  show "\<exists>res. js_get r ''result'' = Inr res \<and>
                   settlements_of i rt' = settlements_of i rt @ [Fulfilled res] \<and>
                   i \<notin> pendingRequests c'"
    using routed[OF assms(1) assms(4) res(2) obj assms(5)] res(1) by blast
next
  assume e: "isJSONRPCErrorResponse r = Inr True"
  then have obj: "\<forall>xs. r \<noteq> JArr xs" using error_response_is_object by blast
  obtain eo message code data ev where ev:
    "js_get r ''error'' = Inr eo" "js_get eo ''message'' = Inr message"
    "js_get eo ''code'' = Inr code" "js_get eo ''data'' = Inr data"
    "js_get ev ''message'' = Inr message" "js_get ev ''code'' = Inr code"
    "js_get ev ''data'' = Inr data"
    "\<forall>c rt. i \<in> pendingRequests c \<longrightarrow>
        handleSingleResponse r (c, rt) =
          (None, (c\<lparr>pendingRequests := pendingRequests c - {i}\<rparr>,
                  rt\<lparr>settled := settled rt @ [(i, Rejected (Thrown ev))]\<rparr>))"
    using handleSingleResponse_error[OF e assms(3) assms(2)] by blast
  show "\<exists>eo message code data ev.
                js_get r ''error'' = Inr eo \<and> js_get eo ''message'' = Inr message \<and>
                js_get eo ''code'' = Inr code \<and> js_get eo ''data'' = Inr data \<and>
                js_get ev ''message'' = Inr message \<and> js_get ev ''code'' = Inr code \<and>
                js_get ev ''data'' = Inr data \<and>
                settlements_of i rt' = settlements_of i rt @ [Rejected (Thrown ev)] \<and>
                i \<notin> pendingRequests c'"
    using routed[OF assms(1) assms(4) ev(8) obj assms(5)] ev(1-7) by blast
qed


text \<open>
  Claim C7. A response whose id is \<^verbatim>\<open>null\<close>, or is the key of no entry of
  \<^verbatim>\<open>pendingRequests\<close>, changes nothing: the map, the settled continuations and the rest
  of the state are as before, and in an array the responses after it are handled as if it
  had not been there.
\<close>

theorem unmatched_response_dropped:
  assumes "js_get response ''id'' = Inr i" and "i = JNull \<or> i \<notin> pendingRequests c"
  shows "handleSingleResponse response (c, rt) = (None, (c, rt)) \<and>
         handleResponses (response # rest) (c, rt) = handleResponses rest (c, rt)"
  using unmatched_dropped[OF assms] by simp

text \<open>\<^verbatim>\<open>call\<close> takes the next number as id, registers it and sends the request.\<close>

lemma call_registers:
  assumes "call method params (c, rt) = (i, (c', rt'))"
  shows "i = JNum (nextId c) \<and> nextId c' = nextId c + 1 \<and>
         pendingRequests c' = insert i (pendingRequests c) \<and>
         sent rt' = sent rt @ [createJsonRpcRequest method i params] \<and>
         isJSONRPCRequest (createJsonRpcRequest method i params) = Inr True"
  using assms
  by (auto simp add: call_def generateId_def Let_def createJsonRpcRequest_def
      isJSONRPCRequest_obj is_id_def split: transport_call.splits)

lemma one_call_pending_eq:
  "one_call_pending =
     (\<lparr>transport = (\<lambda>payload. ReturnsPromise), nextId = 2, pendingRequests = {JNum 1}\<rparr>,
      \<lparr>settled = [], sent = [JObj [(''jsonrpc'', JStr ''2.0''), (''method'', JStr ''get''), (''id'', JNum 1)]],
        console_warn = []\<rparr>)"
  by (simp add: one_call_pending_def call_def generateId_def example_client_def
      createJsonRpcClient_def quiet_def createJsonRpcRequest_def Let_def)

text \<open>Claim C7 with the call of id 1 pending: a response for id 7 and one with id
  \<^verbatim>\<open>null\<close>.\<close>

theorem unmatched_response_dropped_witness:
  "handleSingleResponse (createJsonRpcSuccessResponse (JNum 7) (JStr ''late'')) one_call_pending =
     (None, one_call_pending) \<and>
   handleSingleResponse
     (createJsonRpcErrorResponse JNull (createStandardJsonRpcError PARSE_ERROR JUndefined)) one_call_pending =
     (None, one_call_pending)"
proof -
  obtain c rt where cr: "one_call_pending = (c, rt)" by (cases one_call_pending)
  have p: "JNum 7 \<notin> pendingRequests c" using cr unfolding one_call_pending_eq by auto
  have a: "js_get (createJsonRpcSuccessResponse (JNum 7) (JStr ''late'')) ''id'' = Inr (JNum 7)"
    by (simp add: createJsonRpcSuccessResponse_def)
  have b: "js_get (createJsonRpcErrorResponse JNull (createStandardJsonRpcError PARSE_ERROR JUndefined)) ''id''
      = Inr JNull"
    by (simp add: createJsonRpcErrorResponse_def)
  show ?thesis
    using unmatched_response_dropped[OF a, of c rt] unmatched_response_dropped[OF b, of c rt] p unfolding cr by simp
qed

text \<open>
  Against claim C6 as stated: with the call of id 1 pending, the transport is fulfilled
  with an array of an error response for id 1 followed by a success response for id 1. The array contains a success
  response whose id is that of the call, and the call is rejected: the first response
  removes the entry, and the second finds none.
\<close>

theorem earlier_response_with_same_id_wins:
  "JNum 1 \<in> pendingRequests (fst one_call_pending) \<and>
   isJSONRPCSuccessResponse (createJsonRpcSuccessResponse (JNum 1) (JStr ''ok'')) = Inr True \<and>
   js_get (createJsonRpcSuccessResponse (JNum 1) (JStr ''ok'')) ''id'' = Inr (JNum 1) \<and>
   settlements_of (JNum 1)
     (snd (call_then
        (JArr [createJsonRpcErrorResponse (JNum 1)
                 (createJsonRpcError (JNum (- 32000)) (JStr ''busy'') JUndefined),
               createJsonRpcSuccessResponse (JNum 1) (JStr ''ok'')])
        (JNum 1) one_call_pending)) =
     [Rejected (Thrown (JObj [(''message'', JStr ''busy''), (''code'', JNum (- 32000)),
                               (''data'', JUndefined)]))]"
  by (simp add: one_call_pending_eq factory_defs guard_simps call_then_def handleResponse_def
      handleSingleResponse_def try_js_def settlements_of_def new_Error_def)

text \<open>
  An element \<^verbatim>\<open>null\<close> before the response of the call: reading its \<^verbatim>\<open>id\<close> throws, the
  loop ends, and the \<^verbatim>\<open>.catch\<close> callback rejects the call with the \<^verbatim>\<open>TypeError\<close>.
\<close>

lemma null_element_rejects_call:
  "settlements_of (JNum 1)
     (snd (call_then (JArr [JNull, createJsonRpcSuccessResponse (JNum 1) (JStr ''ok'')])
        (JNum 1) one_call_pending)) = [Rejected TypeError]"
  by (simp add: one_call_pending_eq call_then_def handleResponse_def handleSingleResponse_def
      try_js_def call_catch_def settlements_of_def)

text \<open>Claim C6 with the call of id 1 pending: an array in which the response for id 1
  comes second, and a single error response.\<close>

theorem response_routed_to_pending_call_witness:
  "settlements_of (JNum 1)
     (snd (call_then
        (JArr [createJsonRpcSuccessResponse (JNum 7) (JStr ''other''),
               createJsonRpcSuccessResponse (JNum 1) (JStr ''ok''),
               JNull])
        (JNum 1) one_call_pending)) = [Fulfilled (JStr ''ok'')] \<and>
   settlements_of (JNum 1)
     (snd (call_then
        (createJsonRpcErrorResponse (JNum 1)
           (createJsonRpcError (JNum (- 32000)) (JStr ''busy'') (JStr ''retry'')))
        (JNum 1) one_call_pending)) =
     [Rejected (Thrown (JObj [(''message'', JStr ''busy''), (''code'', JNum (- 32000)),
                               (''data'', JStr ''retry'')]))]"
proof
  obtain c rt where cr: "one_call_pending = (c, rt)" by (cases one_call_pending)
  have i: "JNum 1 \<in> pendingRequests c" and n: "JNum 1 \<noteq> JNull" and e: "settlements_of (JNum 1) rt = []"
    using cr unfolding one_call_pending_eq by (auto simp add: settlements_of_def)
  let ?o = "createJsonRpcSuccessResponse (JNum 7) (JStr ''other'')"
  let ?r = "createJsonRpcSuccessResponse (JNum 1) (JStr ''ok'')"
  let ?R = "JArr [?o, ?r, JNull]"
  obtain c' rt' where ct: "call_then ?R (JNum 1) (c, rt) = (c', rt')"
    by (cases "call_then ?R (JNum 1) (c, rt)")
  have ident: "js_get ?r ''id'' = Inr (JNum 1)" by (simp add: factory_defs)
  have R: "?R = ?r \<or> (?R = JArr ([?o] @ ?r # [JNull]) \<and>
           (\<forall>x\<in>set [?o]. x \<noteq> JNull \<and> x \<noteq> JUndefined \<and> js_get x ''id'' \<noteq> Inr (JNum 1)))"
    by (simp add: factory_defs)
  have s: "isJSONRPCSuccessResponse ?r = Inr True" by (simp add: factory_defs guard_simps)
  obtain res where res: "js_get ?r ''result'' = Inr res"
      "settlements_of (JNum 1) rt' = settlements_of (JNum 1) rt @ [Fulfilled res]"
    using response_routed_to_pending_call[OF i n ident R ct] s by blast
  have "res = JStr ''ok''" using res(1) by (simp add: factory_defs)
  then show "settlements_of (JNum 1) (snd (call_then ?R (JNum 1) one_call_pending)) =
      [Fulfilled (JStr ''ok'')]"
    using res(2) e ct cr by simp
next
  obtain c rt where cr: "one_call_pending = (c, rt)" by (cases one_call_pending)
  have i: "JNum 1 \<in> pendingRequests c" and n: "JNum 1 \<noteq> JNull" and e: "settlements_of (JNum 1) rt = []"
    using cr unfolding one_call_pending_eq by (auto simp add: settlements_of_def)
  let ?r = "createJsonRpcErrorResponse (JNum 1)
           (createJsonRpcError (JNum (- 32000)) (JStr ''busy'') (JStr ''retry''))"
  obtain c' rt' where ct: "call_then ?r (JNum 1) (c, rt) = (c', rt')"
    by (cases "call_then ?r (JNum 1) (c, rt)")
  have ident: "js_get ?r ''id'' = Inr (JNum 1)" by (simp add: factory_defs)
  have R: "?r = ?r \<or> (?r = JArr ([] @ ?r # []) \<and>
           (\<forall>x\<in>set []. x \<noteq> JNull \<and> x \<noteq> JUndefined \<and> js_get x ''id'' \<noteq> Inr (JNum 1)))"
    by simp
  have s: "isJSONRPCErrorResponse ?r = Inr True" by (simp add: factory_defs guard_simps)
  obtain ev where ev: "js_get ev ''message'' = Inr (JStr ''busy'')"
      "settlements_of (JNum 1) rt' = settlements_of (JNum 1) rt @ [Rejected (Thrown ev)]"
    using response_routed_to_pending_call[OF i n ident R ct] s by (auto simp add: factory_defs)
  have "settlements_of (JNum 1) rt' =
     [Rejected (Thrown (JObj [(''message'', JStr ''busy''), (''code'', JNum (- 32000)),
                               (''data'', JStr ''retry'')]))]"
    using ct cr unfolding one_call_pending_eq
    by (auto simp add: factory_defs guard_simps call_then_def handleResponse_def
      handleSingleResponse_def try_js_def settlements_of_def new_Error_def)
  then show "settlements_of (JNum 1) (snd (call_then ?r (JNum 1) one_call_pending)) =
     [Rejected (Thrown (JObj [(''message'', JStr ''busy''), (''code'', JNum (- 32000)),
                               (''data'', JStr ''retry'')]))]"
    using ct cr by simp
qed

text \<open>
  Claim C8, as the code has it. \<^verbatim>\<open>notify\<close> builds a notification and hands it to the
  transport. When the transport returns its promise, \<^verbatim>\<open>notify\<close> returns without
  throwing and changes nothing else; when that promise is rejected later, the callback
  passes the failure to the global \<^verbatim>\<open>console.warn\<close> and to nothing else.
  \<^verbatim>\<open>createJsonRpcClient\<close> takes the transport and no logger.
\<close>

theorem notify_failure_to_console:
  assumes "transport c (createJsonRpcNotification method params) = ReturnsPromise"
  shows "isJSONRPCNotification (createJsonRpcNotification method params) = Inr True \<and>
         notify method params (c, rt) =
           (None, (c, rt\<lparr>sent := sent rt @ [createJsonRpcNotification method params]\<rparr>)) \<and>
         notify_catch error (c, rt) =
           (c, rt\<lparr>console_warn := console_warn rt @
                 [[JStr ''JSON-RPC notification transport error:'', error]]\<rparr>)"
  using assms
  by (simp add: notify_def notify_catch_def Let_def createJsonRpcNotification_def
      isJSONRPCNotification_obj)

text \<open>Claim C8 on the example client.\<close>

theorem notify_failure_to_console_witness:
  "notify ''log'' (JStr ''started'') (example_client, quiet) =
     (None, (example_client,
             \<lparr>settled = [], sent = [createJsonRpcNotification ''log'' (JStr ''started'')],
               console_warn = []\<rparr>))"
proof -
  have t: "transport example_client (createJsonRpcNotification ''log'' (JStr ''started'')) = ReturnsPromise"
    by (simp add: example_client_def createJsonRpcClient_def)
  show ?thesis using notify_failure_to_console[OF t, of quiet] by (simp add: quiet_def)
qed

text \<open>
  Against claim C8 as stated: a client is made from a transport alone, and the failure of
  a notification is written to the global console, which was empty before.
\<close>

theorem notify_reports_to_global_console:
  "console_warn (snd (notify_catch (JStr ''socket closed'')
      (snd (notify ''log'' JUndefined (createJsonRpcClient (\<lambda>payload. ReturnsPromise), quiet))))) =
   [[JStr ''JSON-RPC notification transport error:'', JStr ''socket closed'']] \<and>
   console_warn quiet = []"
  by (simp add: notify_def notify_catch_def createJsonRpcClient_def quiet_def Let_def)

text \<open>A transport that throws instead of returning a promise: the \<^verbatim>\<open>.catch\<close> is not
  yet attached, and \<^verbatim>\<open>notify\<close> throws.\<close>

lemma notify_sync_throw:
  "transport c (createJsonRpcNotification method params) = ThrowsSync e \<Longrightarrow>
   fst (notify method params (c, rt)) = Some (Thrown e)"
  by (simp add: notify_def Let_def)

end
